theory Spec2Isabelle
  imports Main
begin

section \<open>JavaScript strings and errors\<close>

text \<open>
  A JavaScript string is modelled as a \<^typ>\<open>string\<close>: a list of code units, each below 256
  (the device bridge and the build tools print ASCII).  An \<open>undefined\<close> value is \<open>None\<close>.
  A thrown \<open>Error\<close> or a rejected promise is the left summand of a sum type.
\<close>

datatype error = Error (message: string) | TypeError (message: string)

text \<open>\<open>s.startsWith(p)\<close> and \<open>s.includes(sub)\<close> (also \<open>s.indexOf(sub) !== -1\<close>).\<close>

fun startsWith :: "string \<Rightarrow> string \<Rightarrow> bool" where
  "startsWith s [] = True"
| "startsWith [] (p # ps) = False"
| "startsWith (c # cs) (p # ps) = (c = p \<and> startsWith cs ps)"

fun includes_str :: "string \<Rightarrow> string \<Rightarrow> bool" where
  "includes_str [] sub = (sub = [])"
| "includes_str (c # cs) sub = (startsWith (c # cs) sub \<or> includes_str cs sub)"

text \<open>
  \<open>s.toLowerCase()\<close> on code units below 256 that are compared with ASCII words only: the
  letters \<open>A\<close> to \<open>Z\<close> are the only code units whose lower case is an ASCII letter.
\<close>

definition toLowerChar :: "char \<Rightarrow> char" where
  "toLowerChar c =
     (case map_of (zip ''ABCDEFGHIJKLMNOPQRSTUVWXYZ'' ''abcdefghijklmnopqrstuvwxyz'') c of
        Some l \<Rightarrow> l
      | None \<Rightarrow> c)"

definition toLowerCase :: "string \<Rightarrow> string" where
  "toLowerCase s = map toLowerChar s"

text \<open>
  Truthiness of a value of type \<open>string | undefined\<close>, and \<open>a || b\<close> on such values:
  \<open>undefined\<close> and the empty string are falsy.
\<close>

fun truthy :: "string option \<Rightarrow> bool" where
  "truthy None = False"
| "truthy (Some s) = (s \<noteq> [])"

definition js_or :: "string option \<Rightarrow> string option \<Rightarrow> string option" where
  "js_or a b = (if truthy a then a else b)"

section \<open>MobileTargetManager (src/utils/mobileTargetManager.ts)\<close>

text \<open>
  \<open>IMobileTarget\<close>: the fields the sources read.  \<open>name\<close> and \<open>id\<close> may be absent
  (the sources read them through \<open>?.\<close> and \<open>||\<close>).
\<close>

record IMobileTarget =
  name :: "string option"
  id' :: "string option"
  isOnline :: bool
  isVirtualTarget :: bool

text \<open>
  \<open>MobileTargetManager.isVirtualTarget\<close>: the checks are made in the order of the source; the
  last case throws.  The message is the default-locale text of \<open>localize\<close> with \<open>{0}\<close>
  filled in.
\<close>

definition MobileTargetManager_isVirtualTarget :: "string \<Rightarrow> error + bool" where
  "MobileTargetManager_isVirtualTarget tgt =
     (if includes_str tgt ''device'' then Inr False
      else if includes_str tgt ''emulator'' then Inr True
      else Inl (Error (''Could not recognize type of the target '' @ tgt)))"

text \<open>
  \<open>getTargetList\<close>.  \<open>collectTargets\<close> is abstract in this class: it is represented by its
  outcome, a failure or the snapshot it stores in \<open>this.targets\<close>.  An absent filter keeps
  the whole list.
\<close>

definition getTargetList ::
  "(error + IMobileTarget list) \<Rightarrow> IMobileTarget list option \<Rightarrow> (IMobileTarget \<Rightarrow> bool) option
     \<Rightarrow> error + IMobileTarget list" where
  "getTargetList collectTargets targets flt =
     (case (case targets of None \<Rightarrow> collectTargets | Some ts \<Rightarrow> Inr ts) of
        Inl e \<Rightarrow> Inl e
      | Inr ts \<Rightarrow> Inr (case flt of Some f \<Rightarrow> filter f ts | None \<Rightarrow> ts))"

text \<open>The label shown for a target: \<open>target?.name || target?.id\<close>.\<close>

definition targetLabel :: "IMobileTarget \<Rightarrow> string option" where
  "targetLabel tg = js_or (name tg) (id' tg)"

text \<open>
  \<open>selectTarget\<close>.  \<open>window.showQuickPick\<close> is the injected chooser: a function from the
  list of labels to the picked label, or \<open>undefined\<close> when the user cancels.  The second
  component of the result is the list of the chooser's invocations, each with the labels it
  was given.
\<close>

definition selectTarget ::
  "(string option list \<Rightarrow> string option) \<Rightarrow> (error + IMobileTarget list)
     \<Rightarrow> IMobileTarget list option \<Rightarrow> (IMobileTarget \<Rightarrow> bool) option
     \<Rightarrow> error + (IMobileTarget option \<times> string option list list)" where
  "selectTarget showQuickPick collectTargets targets flt =
     (case getTargetList collectTargets targets flt of
        Inl e \<Rightarrow> Inl e
      | Inr targetList \<Rightarrow>
          let result0 = (case targetList of [] \<Rightarrow> None | t # _ \<Rightarrow> js_or (name t) (id' t));
              labels = map targetLabel targetList;
              (result, invocations) =
                (if length targetList > 1 then (showQuickPick labels, [labels])
                 else (result0, []))
          in Inr (find (\<lambda>tg. name tg = result \<or> id' tg = result) targetList,
                  invocations))"

section \<open>Saving the resolved target\<close>

subsection \<open>CordovaDebugSession.resolveAndSaveMobileTarget (src/unnamed/part_003)\<close>

text \<open>
  The mobile platform's methods are implemented in other modules; here they are the
  fields of a record.  \<open>updateLaunchScenario\<close> writes the launch configuration: the result of the
  function is the list of the target values written, in order.
\<close>

record AbstractMobilePlatform =
  getTargetFromRunArgs :: "string option"
  resolveMobileTarget ::
    "string \<Rightarrow> (IMobileTarget \<Rightarrow> bool) option \<Rightarrow> error + IMobileTarget option"
  getTargetsCountByFilter :: "(IMobileTarget \<Rightarrow> bool) \<Rightarrow> error + nat"

record requestArgs =
  target :: "string option"
  platform :: "string option"

definition isAnyTarget :: "string \<Rightarrow> bool" where
  "isAnyTarget t \<longleftrightarrow> toLowerCase t = ''emulator'' \<or> toLowerCase t = ''device''"

definition resolveAndSaveMobileTarget ::
  "AbstractMobilePlatform \<Rightarrow> requestArgs \<Rightarrow> bool \<Rightarrow> error + string option list" where
  "resolveAndSaveMobileTarget mobilePlatform args isAttachRequest =
     (if truthy (target args) \<and> \<not> truthy (getTargetFromRunArgs mobilePlatform) then
        let t = the (target args);
            additionalFilter = (if isAttachRequest then Some isOnline else None)
        in case resolveMobileTarget mobilePlatform t additionalFilter of
             Inl e \<Rightarrow> Inl e
           | Inr None \<Rightarrow> Inr []
           | Inr (Some resultTarget) \<Rightarrow>
               if isAnyTarget t then
                 (case getTargetsCountByFilter mobilePlatform
                         (\<lambda>tg. isVirtualTarget tg = isVirtualTarget resultTarget) of
                    Inl e \<Rightarrow> Inl e
                  | Inr targetsCount \<Rightarrow>
                      if targetsCount > 1 then
                        Inr [if platform args = Some ''android'' then name resultTarget
                             else id' resultTarget]
                      else Inr [])
               else Inr []
      else Inr [])"

subsection \<open>AndroidCordovaPlatform.resolveAndroidTarget (src/unnamed/part_002)\<close>

text \<open>
  \<open>AdbHelper.getOnlineTargets\<close> and the methods of \<open>AndroidTargetManager\<close> are implemented in
  other modules and are parameters.  The result holds the returned target, the value of
  \<open>configArgs.target\<close> afterwards and the target values written to the launch configuration.
\<close>

record AndroidTargetManager =
  manager_isVirtualTarget :: "string \<Rightarrow> error + bool"
  manager_collectTargets :: "error + unit"
  manager_selectAndPrepareTarget :: "(IMobileTarget \<Rightarrow> bool) \<Rightarrow> error + IMobileTarget option"

record resolved =
  targetDevice :: "IMobileTarget option"
  configTarget :: "string option"
  saved :: "string option list"

definition saveResult ::
  "(error + IMobileTarget list) \<Rightarrow> bool \<Rightarrow> IMobileTarget \<Rightarrow> error + string option list" where
  "saveResult getOnlineTargets isAttachScenario tgt =
     (if isAttachScenario then
        (case getOnlineTargets of
           Inl e \<Rightarrow> Inl e
         | Inr onlineDevices \<Rightarrow>
             if length (filter (\<lambda>device. isVirtualTarget tgt = isVirtualTarget device)
                          onlineDevices) > 1
             then Inr [name tgt] else Inr [])
      else Inr [name tgt])"

definition getFirstOnlineAndroidTarget ::
  "(error + IMobileTarget list) \<Rightarrow> string option \<Rightarrow> error + resolved" where
  "getFirstOnlineAndroidTarget getOnlineTargets cfgTarget =
     (case getOnlineTargets of
        Inl e \<Rightarrow> Inl e
      | Inr [] \<Rightarrow> Inr \<lparr>targetDevice = None, configTarget = cfgTarget, saved = []\<rparr>
      | Inr (firstDevice # _) \<Rightarrow>
          Inr \<lparr>targetDevice = Some firstDevice, configTarget = id' firstDevice,
               saved = []\<rparr>)"

definition resolveAndroidTarget ::
  "(error + IMobileTarget list) \<Rightarrow> AndroidTargetManager \<Rightarrow> string option \<Rightarrow> bool
     \<Rightarrow> error + resolved" where
  "resolveAndroidTarget getOnlineTargets androidEmulatorManager cfgTarget isAttachScenario =
     (if truthy cfgTarget then
        let t = the cfgTarget;
            isAnyEmulator = (toLowerCase t = ''emulator'');
            isAnyDevice = (toLowerCase t = ''device'')
        in case manager_isVirtualTarget androidEmulatorManager t of
             Inl e \<Rightarrow> Inl e
           | Inr isVirtual \<Rightarrow>
        (case manager_collectTargets androidEmulatorManager of
             Inl e \<Rightarrow> Inl e
           | Inr _ \<Rightarrow>
        (case manager_selectAndPrepareTarget androidEmulatorManager
                (\<lambda>tg. let conditionForAttachScenario = (if isAttachScenario then isOnline tg else True);
                          conditionForNotAnyTarget =
                            (if isAnyEmulator \<or> isAnyDevice then True
                             else name tg = cfgTarget \<or> id' tg = cfgTarget);
                          conditionForVirtualTarget = (isVirtual = isVirtualTarget tg)
                      in conditionForVirtualTarget \<and> conditionForNotAnyTarget
                           \<and> conditionForAttachScenario) of
             Inl e \<Rightarrow> Inl e
           | Inr (Some dev) \<Rightarrow>
               (case (if isAnyEmulator \<or> isAnyDevice
                      then saveResult getOnlineTargets isAttachScenario dev else Inr []) of
                  Inl e \<Rightarrow> Inl e
                | Inr written \<Rightarrow>
                    Inr \<lparr>targetDevice = Some dev, configTarget = id' dev, saved = written\<rparr>)
           | Inr None \<Rightarrow>
               if isAttachScenario \<and> (isAnyEmulator \<or> isAnyDevice)
               then getFirstOnlineAndroidTarget getOnlineTargets cfgTarget
               else Inr \<lparr>targetDevice = None, configTarget = cfgTarget, saved = []\<rparr>))
      else
        (case getFirstOnlineAndroidTarget getOnlineTargets cfgTarget of
           Inl e \<Rightarrow> Inl e
         | Inr r \<Rightarrow>
             if targetDevice r = None then
               Inl (Error (''The 'target' parameter in the debug configuration is undefined, ''
                          @ ''and there are no any online debuggable targets''))
             else Inr r))"

section \<open>AndroidCordovaPlatform.prepareForAttach (src/unnamed/part_002)\<close>

subsection \<open>String and array helpers of JavaScript\<close>

text \<open>White space of \<open>\s\<close> and of \<open>trim\<close> among the code units below 256.\<close>

definition isSpace :: "char \<Rightarrow> bool" where
  "isSpace c \<longleftrightarrow>
     c \<in> set [CHR 0x09, CHR 0x0A, CHR 0x0B, CHR 0x0C, CHR 0x0D, CHR 0x20, CHR 0xA0]"

definition isDigit :: "char \<Rightarrow> bool" where
  "isDigit c \<longleftrightarrow> c \<in> set ''0123456789''"

definition trim :: "string \<Rightarrow> string" where
  "trim s = rev (dropWhile isSpace (rev (dropWhile isSpace s)))"

text \<open>\<open>s.split("\n")\<close>: every separator ends a piece; the result is never empty.\<close>

fun splitOnChar :: "char \<Rightarrow> string \<Rightarrow> string list" where
  "splitOnChar sep [] = [[]]"
| "splitOnChar sep (c # cs) =
     (if c = sep then [] # splitOnChar sep cs
      else (case splitOnChar sep cs of
              [] \<Rightarrow> [[c]]
            | piece # pieces \<Rightarrow> (c # piece) # pieces))"

text \<open>
  \<open>s.split(/[\s\r]+/)\<close>: a maximal run of separators ends a piece; a leading or trailing
  run leaves an empty first or last piece.
\<close>

function splitRuns :: "(char \<Rightarrow> bool) \<Rightarrow> string \<Rightarrow> string list" where
  "splitRuns sep [] = [[]]"
| "splitRuns sep (c # cs) =
     (if sep c then [] # splitRuns sep (dropWhile sep cs)
      else (case splitRuns sep cs of
              [] \<Rightarrow> [[c]]
            | piece # pieces \<Rightarrow> (c # piece) # pieces))"
  by pat_completeness auto
termination
  by (relation "measure (\<lambda>(sep, s). length s)")
     (auto simp: less_Suc_eq_le length_dropWhile_le)

text \<open>\<open>xs.indexOf(x)\<close> (\<open>-1\<close> when absent) and \<open>xs[i]\<close> (\<open>undefined\<close> out of range).\<close>

fun indexOf :: "'a list \<Rightarrow> 'a \<Rightarrow> int" where
  "indexOf [] x = -1"
| "indexOf (y # ys) x =
     (if y = x then 0 else (let i = indexOf ys x in if i < 0 then -1 else i + 1))"

definition at :: "'a list \<Rightarrow> int \<Rightarrow> 'a option" where
  "at xs i = (if 0 \<le> i \<and> i < int (length xs) then Some (xs ! nat i) else None)"

text \<open>A value of type \<open>string | undefined\<close> inside a template literal.\<close>

fun render :: "string option \<Rightarrow> string" where
  "render None = ''undefined''"
| "render (Some s) = s"

subsection \<open>findAbstractNameFunction\<close>

text \<open>
  One attempt runs up to three commands on the device bridge; their outcomes are the
  fields of \<open>adbOutcomes\<close>.  The marker \<open>CordovaDebugSession.pidofNotFoundError\<close> and the
  regular expression \<open>PS_FIELDS_SPLITTER_RE\<close> are declared in other modules and
  are parameters (the latter as the function \<open>s.split(PS_FIELDS_SPLITTER_RE)\<close>).
\<close>

record adbOutcomes =
  pidofOutcome :: "error + string"
  psOutcome :: "error + string"
  socketsOutcome :: "error + string"

text \<open>The body of the loop over the process listing: \<open>None\<close> is \<open>continue\<close>.\<close>

definition psLine ::
  "(string \<Rightarrow> string list) \<Rightarrow> int \<Rightarrow> int \<Rightarrow> string option \<Rightarrow> string \<Rightarrow> string option option" where
  "psLine psSplit nameIdx pidIdx appPackageName line =
     (let fields = filter (\<lambda>field. field \<noteq> []) (psSplit (trim line)) in
      if int (length fields) < nameIdx then None
      else if at fields nameIdx = appPackageName then Some (at fields pidIdx)
      else None)"

fun psLines ::
  "(string \<Rightarrow> string list) \<Rightarrow> int \<Rightarrow> int \<Rightarrow> string option \<Rightarrow> string list \<Rightarrow> string option" where
  "psLines psSplit nameIdx pidIdx appPackageName [] = None"
| "psLines psSplit nameIdx pidIdx appPackageName (line # lines) =
     (case psLine psSplit nameIdx pidIdx appPackageName line of
        Some pid \<Rightarrow> pid
      | None \<Rightarrow> psLines psSplit nameIdx pidIdx appPackageName lines)"

definition parsePs :: "(string \<Rightarrow> string list) \<Rightarrow> string option \<Rightarrow> string \<Rightarrow> error + string option" where
  "parsePs psSplit appPackageName psResult =
     (case splitOnChar CHR 0x0A psResult of
        [] \<Rightarrow> Inl (TypeError ''Cannot read properties of undefined (reading 'split')'')
      | header # lines \<Rightarrow>
          let keys = psSplit header;
              nameIdx = indexOf keys ''NAME'';
              pidIdx = indexOf keys ''PID''
          in Inr (psLines psSplit nameIdx pidIdx appPackageName lines))"

text \<open>
  The pid step: the \<open>then\<close> handler throws the marker error when the output of \<open>pidof\<close> is
  not a number; the \<open>catch\<close> handler sees that error and every rejection of the command.
\<close>

definition findPid ::
  "string \<Rightarrow> (string \<Rightarrow> string list) \<Rightarrow> adbOutcomes \<Rightarrow> string option \<Rightarrow> error + string option" where
  "findPid pidofNotFoundError psSplit adb appPackageName =
     (case (case pidofOutcome adb of
              Inl err \<Rightarrow> Inl err
            | Inr pid \<Rightarrow>
                if pid \<noteq> [] \<and> trim pid \<noteq> [] \<and> list_all isDigit (trim pid)
                then Inr (trim pid)
                else Inl (Error pidofNotFoundError)) of
        Inr pid \<Rightarrow> Inr (Some pid)
      | Inl err \<Rightarrow>
          if message err \<noteq> pidofNotFoundError then Inr None
          else (case psOutcome adb of
                  Inl e \<Rightarrow> Inl e
                | Inr psResult \<Rightarrow> parsePs psSplit appPackageName psResult))"

text \<open>
  The body of the loop over the socket table: \<open>Inr None\<close> is \<open>continue\<close>, \<open>Inr (Some n)\<close>
  is \<open>return n\<close>; reading \<open>length\<close> of an absent path field throws.
\<close>

definition socketLine ::
  "int \<Rightarrow> int \<Rightarrow> int \<Rightarrow> string option \<Rightarrow> string option \<Rightarrow> string \<Rightarrow> error + string option" where
  "socketLine flagsIdx stIdx pathIdx pid appPackageName line =
     (let fields = splitRuns isSpace line in
      if length fields < 8 then Inr None
      else if at fields flagsIdx \<noteq> Some ''00010000'' \<or> at fields stIdx \<noteq> Some ''01''
      then Inr None
      else (case at fields pathIdx of
              None \<Rightarrow> Inl (TypeError ''Cannot read properties of undefined (reading 'length')'')
            | Some pathField \<Rightarrow>
                if length pathField < 1 \<or> take 1 pathField \<noteq> ''@'' then Inr None
                else if \<not> includes_str pathField ''_devtools_remote'' then Inr None
                else if pathField = ''@webview_devtools_remote_'' @ render pid
                then Inr (Some (drop 1 pathField))
                else if pathField = ''@'' @ render appPackageName @ ''_devtools_remote''
                then Inr (Some (drop 1 pathField))
                else Inr None))"

fun socketLines ::
  "int \<Rightarrow> int \<Rightarrow> int \<Rightarrow> string option \<Rightarrow> string option \<Rightarrow> string list \<Rightarrow> error + string option" where
  "socketLines flagsIdx stIdx pathIdx pid appPackageName [] = Inr None"
| "socketLines flagsIdx stIdx pathIdx pid appPackageName (line # lines) =
     (case socketLine flagsIdx stIdx pathIdx pid appPackageName line of
        Inl e \<Rightarrow> Inl e
      | Inr (Some abstractName) \<Rightarrow> Inr (Some abstractName)
      | Inr None \<Rightarrow> socketLines flagsIdx stIdx pathIdx pid appPackageName lines)"

definition parseSockets :: "string option \<Rightarrow> string option \<Rightarrow> string \<Rightarrow> error + string option" where
  "parseSockets pid appPackageName getSocketsResult =
     (case splitOnChar CHR 0x0A getSocketsResult of
        [] \<Rightarrow> Inl (TypeError ''Cannot read properties of undefined (reading 'split')'')
      | header # lines \<Rightarrow>
          let keys = splitRuns isSpace header;
              flagsIdx = indexOf keys ''Flags'';
              stIdx = indexOf keys ''St'';
              pathIdx = indexOf keys ''Path''
          in socketLines flagsIdx stIdx pathIdx pid appPackageName lines)"

definition findAbstractNameFunction ::
  "string \<Rightarrow> (string \<Rightarrow> string list) \<Rightarrow> adbOutcomes \<Rightarrow> string option \<Rightarrow> error + string option" where
  "findAbstractNameFunction pidofNotFoundError psSplit adb appPackageName =
     (case findPid pidofNotFoundError psSplit adb appPackageName of
        Inl e \<Rightarrow> Inl e
      | Inr pid \<Rightarrow>
          (case socketsOutcome adb of
             Inl e \<Rightarrow> Inl e
           | Inr getSocketsResult \<Rightarrow> parseSockets pid appPackageName getSocketsResult))"

subsection \<open>packagePromise\<close>

text \<open>
  Reading the manifest: \<open>fs.promises.readFile\<close> on the two manifest paths and the XML
  parser are library functions and are parameters: the outcome of each read, with the
  \<open>code\<close> of a failure when it has one, and the value of the \<open>package\<close> attribute.
\<close>

definition packagePromise ::
  "((string option \<times> error) + string) \<Rightarrow> ((string option \<times> error) + string)
     \<Rightarrow> (string \<Rightarrow> error + string option) \<Rightarrow> error + string option" where
  "packagePromise readManifest readManifest8 parsePackage =
     (case (case readManifest of
              Inr manifestContents \<Rightarrow> Inr manifestContents
            | Inl (errCode, err) \<Rightarrow>
                if errCode = Some ''ENOENT''
                then (case readManifest8 of
                        Inr manifestContents \<Rightarrow> Inr manifestContents
                      | Inl (errCode8, err8) \<Rightarrow> Inl err8)
                else Inl err) of
        Inl err \<Rightarrow> Inl err
      | Inr manifestContents \<Rightarrow> parsePackage manifestContents)"

subsection \<open>The retry loop\<close>

datatype retryEvent = Attempt nat | Delay nat

text \<open>
  Modelled from the spec: \<open>retryAsync\<close> is imported by \<open>prepareForAttach\<close> and is not among
  the sources.  The specification (4.4, step 6, and the retry-exhaustion property of
  section 8) gives: attempts up to a fixed attempt count, a fixed delay between attempts,
  external cancellation honoured, and a specific error on exhaustion.  An attempt fails when
  it is rejected or when its result does not satisfy the condition.  After a failed attempt
  the cancellation token is consulted; a cancelled token ends the loop with the
  cancellation error named \<open>tokenCanceled\<close> (\<open>CANCELLATION_ERROR_NAME\<close>).  \<open>func i\<close> is the
  outcome of the attempt numbered \<open>i\<close>, \<open>cancellationRequested i\<close> the state of the token
  after it.  The result is the sequence of attempts and delays, and the outcome.
\<close>

function retryAsync ::
  "(nat \<Rightarrow> error + 'a) \<Rightarrow> ('a \<Rightarrow> bool) \<Rightarrow> nat \<Rightarrow> nat \<Rightarrow> nat \<Rightarrow> string \<Rightarrow> (nat \<Rightarrow> bool)
     \<Rightarrow> retryEvent list \<times> (error + 'a)" where
  "retryAsync func condition maxRetries iteration delay failure cancellationRequested =
     (if (case func iteration of Inl e \<Rightarrow> False | Inr result \<Rightarrow> condition result)
      then ([Attempt iteration], func iteration)
      else if cancellationRequested iteration
      then ([Attempt iteration], Inl (Error ''tokenCanceled''))
      else if iteration < maxRetries
      then (let (events, outcome) =
                  retryAsync func condition maxRetries (iteration + 1) delay failure
                    cancellationRequested
            in (Attempt iteration # Delay delay # events, outcome))
      else ([Attempt iteration], Inl (Error failure)))"
  by pat_completeness auto
termination
  by (relation "measure (\<lambda>(func, condition, maxRetries, iteration, rest). maxRetries - iteration)")
     auto

declare retryAsync.simps [simp del]

text \<open>
  The call of \<open>retryAsync\<close> in \<open>prepareForAttach\<close>; \<open>adbAt i\<close> holds the outcomes of the
  device-bridge commands during attempt \<open>i\<close>.
\<close>

definition findAbstractNameWithRetry ::
  "string \<Rightarrow> (string \<Rightarrow> string list) \<Rightarrow> (nat \<Rightarrow> adbOutcomes) \<Rightarrow> string option \<Rightarrow> (nat \<Rightarrow> bool)
     \<Rightarrow> retryEvent list \<times> (error + string option)" where
  "findAbstractNameWithRetry pidofNotFoundError psSplit adbAt appPackageName cancellationRequested =
     retryAsync
       (\<lambda>i. findAbstractNameFunction pidofNotFoundError psSplit (adbAt i) appPackageName)
       (\<lambda>match. truthy match)
       5 1 5000
       ''Unable to find 'localabstract' name of Cordova app''
       cancellationRequested"

text \<open>Attempts in a sequence of events.\<close>

definition attempts :: "retryEvent list \<Rightarrow> nat" where
  "attempts events = length (filter (\<lambda>e. case e of Attempt i \<Rightarrow> True | Delay d \<Rightarrow> False) events)"


section \<open>IonicDevServer.startIonicDevServer (second part of src/extension/appcenter/appCenterStrings.ts)\<close>

subsection \<open>The regular expressions of the detector\<close>

text \<open>
  Each regular expression of the source is a function on strings.  A search tries the
  start positions from left to right (\<open>firstMatch\<close>); a greedy \<open>.*\<close> followed by a pattern
  tries the positions of the rest of the line from right to left (\<open>lastMatch\<close>).  The dot
  matches every code unit but a line terminator.  With the flag \<open>i\<close> a letter of the pattern
  matches both of its cases; no code unit outside ASCII matches an ASCII letter.
\<close>

fun firstMatch :: "(string \<Rightarrow> 'a option) \<Rightarrow> string \<Rightarrow> 'a option" where
  "firstMatch m [] = m []"
| "firstMatch m (c # cs) = (case m (c # cs) of Some r \<Rightarrow> Some r | None \<Rightarrow> firstMatch m cs)"

fun lastMatch :: "(string \<Rightarrow> 'a option) \<Rightarrow> string \<Rightarrow> 'a option" where
  "lastMatch m [] = m []"
| "lastMatch m (c # cs) = (case lastMatch m cs of Some r \<Rightarrow> Some r | None \<Rightarrow> m (c # cs))"

fun startsWithCI :: "string \<Rightarrow> string \<Rightarrow> bool" where
  "startsWithCI s [] = True"
| "startsWithCI [] (p # ps) = False"
| "startsWithCI (c # cs) (p # ps) = (toLowerChar c = toLowerChar p \<and> startsWithCI cs ps)"

definition isLineTerminator :: "char \<Rightarrow> bool" where
  "isLineTerminator c \<longleftrightarrow> c = CHR 0x0A \<or> c = CHR 0x0D"

definition dotStar :: "string \<Rightarrow> string" where
  "dotStar s = takeWhile (\<lambda>c. \<not> isLineTerminator c) s"

definition isWordChar :: "char \<Rightarrow> bool" where
  "isWordChar c \<longleftrightarrow>
     c \<in> set ''abcdefghijklmnopqrstuvwxyzABCDEFGHIJKLMNOPQRSTUVWXYZ0123456789_''"

text \<open>A regular expression without metacharacters: \<open>/text/.test(s)\<close> and \<open>/text/i.test(s)\<close>.\<close>

definition includesCI :: "string \<Rightarrow> string \<Rightarrow> bool" where
  "includesCI s sub \<longleftrightarrow>
     firstMatch (\<lambda>u. if startsWithCI u sub then Some () else None) s \<noteq> None"

text \<open>\<open>errorRegex = /error:.*/i\<close>; the result of \<open>exec\<close> is \<open>errorMatch[0]\<close>.\<close>

definition errorRegex_at :: "string \<Rightarrow> string option" where
  "errorRegex_at u =
     (if startsWithCI u ''error:'' then Some (take 6 u @ dotStar (drop 6 u)) else None)"

definition errorRegex_exec :: "string \<Rightarrow> string option" where
  "errorRegex_exec s = firstMatch errorRegex_at s"

text \<open>
  \<open>SERVER_URL_RE = /(dev server running|Running dev server|Local):.*(http:\/\/.[^\s]*)/gmi\<close>,
  built anew for each call, so that \<open>exec\<close> searches from the start; the result is the
  second group, \<open>localServerMatchResult[2]\<close>.
\<close>

definition url_at :: "string \<Rightarrow> string option" where
  "url_at v =
     (if startsWithCI v ''http://'' \<and> 8 \<le> length v
      then Some (take 8 v @ takeWhile (\<lambda>c. \<not> isSpace c) (drop 8 v))
      else None)"

fun SERVER_URL_RE_at :: "string list \<Rightarrow> string \<Rightarrow> string option" where
  "SERVER_URL_RE_at [] u = None"
| "SERVER_URL_RE_at (alternative # alternatives) u =
     (case (if startsWithCI u (alternative @ '':'')
            then lastMatch url_at (dotStar (drop (length alternative + 1) u))
            else None) of
        Some url \<Rightarrow> Some url
      | None \<Rightarrow> SERVER_URL_RE_at alternatives u)"

definition SERVER_URL_RE_exec :: "string \<Rightarrow> string option" where
  "SERVER_URL_RE_exec s =
     firstMatch (SERVER_URL_RE_at [''dev server running'', ''Running dev server'', ''Local'']) s"

text \<open>\<open>/External:\s(.*)$/im\<close>; the result of \<open>exec\<close> is the first group.\<close>

definition externalUrls_at :: "string \<Rightarrow> string option" where
  "externalUrls_at u =
     (if startsWithCI u ''external:'' \<and> (case drop 9 u of [] \<Rightarrow> False | c # rest \<Rightarrow> isSpace c)
      then Some (dotStar (drop 10 u))
      else None)"

definition externalUrls_exec :: "string \<Rightarrow> string option" where
  "externalUrls_exec s = firstMatch externalUrls_at s"

text \<open>\<open>s.split(sep)\<close> for a non-empty separator string.\<close>

function splitOn :: "string \<Rightarrow> string \<Rightarrow> string list" where
  "splitOn sep [] = [[]]"
| "splitOn sep (c # cs) =
     (if sep \<noteq> [] \<and> startsWith (c # cs) sep
      then [] # splitOn sep (drop (length sep - 1) cs)
      else (case splitOn sep cs of
              [] \<Rightarrow> [[c]]
            | piece # pieces \<Rightarrow> (c # piece) # pieces))"
  by pat_completeness auto
termination
  by (relation "measure (\<lambda>(sep, s). length s)") auto

text \<open>
  The three expressions of \<open>getRegexToResolveAppDefer\<close>, each as its \<open>test\<close>:
  \<open>/created bundle at path|\(lldb\)\W+run\r?\nsuccess/i\<close>, \<open>/build succeeded/i\<close> and
  \<open>/launch success|run successful/i\<close>.
\<close>

definition lldbRunSuccess_at :: "string \<Rightarrow> unit option" where
  "lldbRunSuccess_at u =
     (let afterLldb = drop 6 u;
          afterNonWord = dropWhile (\<lambda>c. \<not> isWordChar c) afterLldb;
          afterRun = drop 3 afterNonWord;
          afterCr = (if take 1 afterRun = [CHR 0x0D] then drop 1 afterRun else afterRun)
      in if startsWithCI u ''(lldb)''
            \<and> takeWhile (\<lambda>c. \<not> isWordChar c) afterLldb \<noteq> []
            \<and> startsWithCI afterNonWord ''run''
            \<and> startsWithCI afterCr (CHR 0x0A # ''success'')
         then Some () else None)"

definition iosDeviceAppReadyRegex_test :: "string \<Rightarrow> bool" where
  "iosDeviceAppReadyRegex_test s \<longleftrightarrow>
     firstMatch (\<lambda>u. if startsWithCI u ''created bundle at path'' then Some ()
                      else lldbRunSuccess_at u) s \<noteq> None"

definition iosSimulatorAppReadyRegex_test :: "string \<Rightarrow> bool" where
  "iosSimulatorAppReadyRegex_test s \<longleftrightarrow> includesCI s ''build succeeded''"

definition appReadyRegex_test :: "string \<Rightarrow> bool" where
  "appReadyRegex_test s \<longleftrightarrow>
     firstMatch (\<lambda>u. if startsWithCI u ''launch success'' \<or> startsWithCI u ''run successful''
                      then Some () else None) s \<noteq> None"

definition getRegexToResolveAppDefer :: "string list \<Rightarrow> string \<Rightarrow> bool" where
  "getRegexToResolveAppDefer cliArgs =
     (let isIosDevice = (''ios'' \<in> set cliArgs \<and> ''--device'' \<in> set cliArgs);
          isIosSimulator = (''ios'' \<in> set cliArgs \<and> ''emulate'' \<in> set cliArgs)
      in if isIosDevice then iosDeviceAppReadyRegex_test
         else if isIosSimulator then iosSimulatorAppReadyRegex_test
         else appReadyRegex_test)"

text \<open>
  \<open>addressRegex = /(\d+\) .*)/gm\<close> and the loop of \<open>exec\<close> calls: every match, each search
  starting where the match before it ended.
\<close>

definition addressRegex_at :: "string \<Rightarrow> string option" where
  "addressRegex_at u =
     (let digits = takeWhile isDigit u; rest = dropWhile isDigit u
      in if digits \<noteq> [] \<and> startsWith rest '') ''
         then Some (digits @ '') '' @ dotStar (drop 2 rest))
         else None)"

function addressRegex_all :: "string \<Rightarrow> string list" where
  "addressRegex_all [] = []"
| "addressRegex_all (c # cs) =
     (case addressRegex_at (c # cs) of
        Some m \<Rightarrow> m # addressRegex_all (drop (length m - 1) cs)
      | None \<Rightarrow> addressRegex_all cs)"
  by pat_completeness auto
termination
  by (relation "measure length") auto

subsection \<open>The state of the detector\<close>

text \<open>
  \<open>launchSetup\<close> holds what the detector is started with: the command-line arguments after
  the address and port options were added, whether the Ionic CLI is version 4.0.0 or later
  (\<open>CordovaProjectHelper.isIonicCliVersionGte\<close>), \<open>launchArgs.devServerTimeout\<close>, \<open>os.EOL\<close> and
  \<open>CordovaProjectHelper.getPortFromURL\<close>; the helper class is another module.
\<close>

record launchSetup =
  cliArgs :: "string list"
  isIonic4 :: bool
  devServerTimeout :: "int option"
  EOL :: string
  getPortFromURL :: "string \<Rightarrow> int"

definition isServe :: "launchSetup \<Rightarrow> bool" where
  "isServe cfg = (case cliArgs cfg of [] \<Rightarrow> False | a # _ \<Rightarrow> a = ''serve'')"

text \<open>\<open>launchArgs.devServerTimeout || 60000\<close> and \<open>launchArgs.devServerTimeout || 120000\<close>.\<close>

definition serverReadyTimeout :: "launchSetup \<Rightarrow> int" where
  "serverReadyTimeout cfg =
     (case devServerTimeout cfg of None \<Rightarrow> 60000 | Some n \<Rightarrow> if n = 0 then 60000 else n)"

definition appReadyTimeout :: "launchSetup \<Rightarrow> int" where
  "appReadyTimeout cfg =
     (case devServerTimeout cfg of None \<Rightarrow> 120000 | Some n \<Rightarrow> if n = 0 then 120000 else n)"

datatype IonicDevServerStatus = ServerReady | AppReady

datatype timer = ServerReadyTimer | AppReadyTimer

datatype timerCall = SetTimeout timer int | ClearTimeout timer

text \<open>
  What the promise \<open>serverStarting\<close> is settled with: \<open>_resolve(serverUrls)\<close>, \<open>reject\<close> of a
  string (the two timeouts) or \<open>reject\<close> of an error object.
\<close>

datatype settlement =
  Resolved "string list option"
| RejectedMessage string
| RejectedError error

text \<open>
  The variables the handlers share.  \<open>rejectTimeout\<close> is the timer the variable of that name
  refers to and \<open>timerPending\<close> tells whether that timer is still to fire; \<open>timerCalls\<close> is
  the history of the calls of \<open>setTimeout\<close> and \<open>clearTimeout\<close>; \<open>serverStarting\<close> is the
  state of the promise, \<open>None\<close> while it is pending.  The calls of the output logger are
  left out.
\<close>

record detector =
  serverReady :: bool
  appReady :: bool
  serverOut :: string
  serverErr :: string
  rejectTimeout :: timer
  timerPending :: bool
  timerCalls :: "timerCall list"
  serverStarting :: "settlement option"
  devServerPort :: "int option"

text \<open>Settling a promise a second time has no effect.\<close>

definition settle :: "settlement \<Rightarrow> detector \<Rightarrow> detector" where
  "settle outcome d = (if serverStarting d = None then d\<lparr>serverStarting := Some outcome\<rparr> else d)"

definition clearTimeout :: "detector \<Rightarrow> detector" where
  "clearTimeout d =
     d\<lparr>timerPending := False, timerCalls := timerCalls d @ [ClearTimeout (rejectTimeout d)]\<rparr>"

definition setTimeout :: "timer \<Rightarrow> int \<Rightarrow> detector \<Rightarrow> detector" where
  "setTimeout t ms d =
     d\<lparr>rejectTimeout := t, timerPending := True, timerCalls := timerCalls d @ [SetTimeout t ms]\<rparr>"

definition startDetector :: "launchSetup \<Rightarrow> int option \<Rightarrow> detector" where
  "startDetector cfg port =
     \<lparr>serverReady = False, appReady = False, serverOut = [], serverErr = [],
      rejectTimeout = ServerReadyTimer, timerPending = True,
      timerCalls = [SetTimeout ServerReadyTimer (serverReadyTimeout cfg)],
      serverStarting = None, devServerPort = port\<rparr>"

subsection \<open>Messages\<close>

text \<open>A number in a message: the decimal digits of an integer.\<close>

function showNat :: "nat \<Rightarrow> string" where
  "showNat n = (if n < 10 then [''0123456789'' ! n] else showNat (n div 10) @ [''0123456789'' ! (n mod 10)])"
  by pat_completeness auto
termination
  by (relation "measure id") auto

declare showNat.simps [simp del]

definition showInt :: "int \<Rightarrow> string" where
  "showInt i = (if i < 0 then CHR ''-'' # showNat (nat (- i)) else showNat (nat i))"

text \<open>The default-locale texts of \<open>localize\<close>, with \<open>{0}\<close> filled in.\<close>

definition timeoutMessage :: "launchSetup \<Rightarrow> timer \<Rightarrow> string" where
  "timeoutMessage cfg t =
     (case t of
        ServerReadyTimer \<Rightarrow>
          ''Starting the Ionic dev server timed out ('' @ showInt (serverReadyTimeout cfg) @ '' ms)''
      | AppReadyTimer \<Rightarrow>
          ''Building and deploying the app timed out ('' @ showInt (appReadyTimeout cfg) @ '' ms)'')"

definition YourMachineHasMultipleNetworkAddresses :: string where
  "YourMachineHasMultipleNetworkAddresses =
     ''Your machine has multiple network addresses. Please specify which one your device or ''
     @ ''emulator will use to communicate with the dev server by adding a ''
     @ [CHR 0x22] @ ''devServerAddress'' @ [CHR 0x22] @ '': '' @ [CHR 0x22] @ ''ADDRESS'' @ [CHR 0x22]
     @ '' property to .vscode/launch.json.'' @ [CHR 0x0A]
     @ ''    To get the list of addresses run '' @ [CHR 0x22]
     @ ''ionic cordova run PLATFORM --livereload'' @ [CHR 0x22]
     @ '' (where PLATFORM is platform name to run) and wait until prompt with this list is appeared.''"

text \<open>\<open>xs.join(sep)\<close>.\<close>

fun join :: "string \<Rightarrow> string list \<Rightarrow> string" where
  "join sep [] = []"
| "join sep [x] = x"
| "join sep (x # y # ys) = x @ sep @ join sep (y # ys)"

definition multipleNetworkMessage :: "launchSetup \<Rightarrow> string \<Rightarrow> string" where
  "multipleNetworkMessage cfg out =
     (let addresses = addressRegex_all out
      in if length addresses > 0
         then YourMachineHasMultipleNetworkAddresses
                @ join (EOL cfg @ '' '') ('' Available addresses:'' # addresses)
         else YourMachineHasMultipleNetworkAddresses)"

subsection \<open>The handlers\<close>

definition getServerErrorMessage :: "launchSetup \<Rightarrow> string \<Rightarrow> string option" where
  "getServerErrorMessage cfg channel =
     (if isIonic4 cfg \<and> includes_str channel ''utils-network error while checking'' then None
      else (case errorRegex_exec channel of
              Some errorMatch \<Rightarrow>
                Some (''Error in the Ionic live reload server: '' @ EOL cfg @ errorMatch)
            | None \<Rightarrow> None))"

definition resolveIfPossible ::
  "launchSetup \<Rightarrow> IonicDevServerStatus \<Rightarrow> string list option \<Rightarrow> detector \<Rightarrow> detector" where
  "resolveIfPossible cfg ready serverUrls d =
     (if ready = ServerReady \<and> \<not> serverReady d then
        setTimeout AppReadyTimer (appReadyTimeout cfg) ((clearTimeout d)\<lparr>serverReady := True\<rparr>)
      else if ready = AppReady \<and> serverReady d then
        settle (Resolved serverUrls) ((clearTimeout d)\<lparr>appReady := True\<rparr>)
      else d)"

text \<open>
  The list \<open>serverUrls\<close> of the handler: the matched address, then the addresses of the
  \<open>External:\<close> line.
\<close>

definition serverUrls :: "string \<Rightarrow> string \<Rightarrow> string list" where
  "serverUrls url out =
     (case externalUrls_exec out of
        Some externalUrls \<Rightarrow> url # map trim (splitOn '', '' externalUrls)
      | None \<Rightarrow> [url])"

text \<open>
  \<open>serverOutputHandler\<close>, block by block in the order of the source: the server-ready
  check, the app-ready check, the check for several network interfaces and the check for an
  error line.  \<open>out\<close> is \<open>serverOut\<close> after the chunk was appended, and
  \<open>localServerMatchResult\<close> the result of \<open>SERVER_URL_RE.exec(serverOut)\<close>.  Reading
  \<open>localServerMatchResult[2]\<close> when the expression did not match throws; the handler then
  ends there.
\<close>

definition serverReadyBlock :: "launchSetup \<Rightarrow> string option \<Rightarrow> detector \<Rightarrow> detector" where
  "serverReadyBlock cfg localServerMatchResult d =
     (if \<not> serverReady d \<and> localServerMatchResult \<noteq> None
      then resolveIfPossible cfg ServerReady None d
      else d)"

definition appReadyBlock ::
  "launchSetup \<Rightarrow> string \<Rightarrow> string option \<Rightarrow> detector \<Rightarrow> error + detector" where
  "appReadyBlock cfg out localServerMatchResult d =
     (if serverReady d \<and> \<not> appReady d then
        if isServe cfg \<or> getRegexToResolveAppDefer (cliArgs cfg) out then
          (case localServerMatchResult of
             None \<Rightarrow> Inl (TypeError ''Cannot read properties of null (reading '2')'')
           | Some url \<Rightarrow>
               Inr (resolveIfPossible cfg AppReady (Some (serverUrls url out))
                      (d\<lparr>devServerPort := Some (getPortFromURL cfg url)\<rparr>)))
        else Inr d
      else Inr d)"

definition multipleInterfacesBlock :: "launchSetup \<Rightarrow> string \<Rightarrow> detector \<Rightarrow> detector" where
  "multipleInterfacesBlock cfg out d =
     (if includes_str out ''Multiple network interfaces detected''
      then settle (RejectedError (Error (multipleNetworkMessage cfg out))) d
      else d)"

definition errorBlock :: "launchSetup \<Rightarrow> string \<Rightarrow> detector \<Rightarrow> detector" where
  "errorBlock cfg channel d =
     (case getServerErrorMessage cfg channel of
        Some errorMsg \<Rightarrow> settle (RejectedError (Error errorMsg)) d
      | None \<Rightarrow> d)"

definition serverOutputHandler :: "launchSetup \<Rightarrow> string \<Rightarrow> detector \<Rightarrow> error + detector" where
  "serverOutputHandler cfg data d0 =
     (let d1 = d0\<lparr>serverOut := serverOut d0 @ data\<rparr>;
          out = serverOut d1;
          localServerMatchResult = SERVER_URL_RE_exec out;
          d2 = serverReadyBlock cfg localServerMatchResult d1
      in case appReadyBlock cfg out localServerMatchResult d2 of
           Inl e \<Rightarrow> Inl e
         | Inr d3 \<Rightarrow> Inr (errorBlock cfg out (multipleInterfacesBlock cfg out d3)))"

definition serverErrorOutputHandler :: "launchSetup \<Rightarrow> string \<Rightarrow> detector \<Rightarrow> detector" where
  "serverErrorOutputHandler cfg data d0 =
     (let d1 = d0\<lparr>serverErr := serverErr d0 @ data\<rparr>
      in errorBlock cfg (serverErr d1) d1)"

text \<open>The listener of \<open>stderr\<close>.\<close>

definition stderrListener :: "launchSetup \<Rightarrow> string \<Rightarrow> detector \<Rightarrow> error + detector" where
  "stderrListener cfg data d =
     (case (if isIonic4 cfg then serverOutputHandler cfg data d else Inr d) of
        Inl e \<Rightarrow> Inl e
      | Inr d1 \<Rightarrow> Inr (serverErrorOutputHandler cfg data d1))"

text \<open>The listener of \<open>exit\<close>; both branches of its last conditional reject alike.\<close>

definition exitListener :: "launchSetup \<Rightarrow> detector \<Rightarrow> detector" where
  "exitListener cfg d =
     (let exitMessage = ''The Ionic live reload server exited unexpectedly'';
          exitMessage' =
            (case getServerErrorMessage cfg (serverErr d) of
               Some errorMsg \<Rightarrow>
                 if includes_str errorMsg ''getaddrinfo ENOTFOUND''
                    \<or> includes_str errorMsg ''listen EADDRNOTAVAIL''
                 then exitMessage @ EOL cfg
                        @ ''Invalid address: please provide a valid IP address or hostname for the ''
                        @ [CHR 0x22] @ ''devServerAddress'' @ [CHR 0x22]
                        @ '' property in launch.json''
                 else exitMessage @ EOL cfg @ errorMsg
             | None \<Rightarrow> exitMessage)
      in settle (RejectedError (Error exitMessage')) d)"

text \<open>
  The listener of \<open>error\<close>, given \<open>err.code\<close> and the error.  The text of the message has a
  dash outside ASCII before \<open>g\<close>; a hyphen stands for it here.
\<close>

definition errorListener :: "string option \<Rightarrow> error \<Rightarrow> detector \<Rightarrow> detector" where
  "errorListener errCode err d =
     (if errCode = Some ''ENOENT''
      then settle (RejectedError (Error
             ''Ionic not found, please run 'npm install -g ionic' to install it globally'')) d
      else settle (RejectedError err) d)"

text \<open>The callback of the timer that is pending, if one is.\<close>

definition timeoutCallback :: "launchSetup \<Rightarrow> detector \<Rightarrow> detector" where
  "timeoutCallback cfg d =
     (if timerPending d
      then settle (RejectedMessage (timeoutMessage cfg (rejectTimeout d)))
             (d\<lparr>timerPending := False\<rparr>)
      else d)"

subsection \<open>Runs of the detector\<close>

datatype event =
  StdoutData string
| StderrData string
| ProcessExit
| ProcessError "string option" error
| TimerFired

fun step :: "launchSetup \<Rightarrow> event \<Rightarrow> detector \<Rightarrow> error + detector" where
  "step cfg (StdoutData data) d = serverOutputHandler cfg data d"
| "step cfg (StderrData data) d = stderrListener cfg data d"
| "step cfg ProcessExit d = Inr (exitListener cfg d)"
| "step cfg (ProcessError errCode err) d = Inr (errorListener errCode err d)"
| "step cfg TimerFired d = Inr (timeoutCallback cfg d)"

text \<open>An exception thrown by a listener ends the run.\<close>

fun run :: "launchSetup \<Rightarrow> detector \<Rightarrow> event list \<Rightarrow> error + detector" where
  "run cfg d [] = Inr d"
| "run cfg d (e # es) =
     (case step cfg e d of Inl err \<Rightarrow> Inl err | Inr d' \<Rightarrow> run cfg d' es)"

subsection \<open>States of a run\<close>

text \<open>
  What holds of every state of a run: the server-ready expression matches the output once
  \<open>serverReady\<close> is set; \<open>appReady\<close> comes with \<open>serverReady\<close>, a settled promise and no
  pending timer; the flags determine the timer the variable refers to and the whole history
  of timer calls; a resolved promise comes with \<open>appReady\<close>.
\<close>

definition reachable :: "launchSetup \<Rightarrow> detector \<Rightarrow> bool" where
  "reachable cfg d \<longleftrightarrow>
     (serverReady d \<longrightarrow> SERVER_URL_RE_exec (serverOut d) \<noteq> None)
     \<and> (appReady d \<longrightarrow> serverReady d \<and> \<not> timerPending d \<and> serverStarting d \<noteq> None)
     \<and> rejectTimeout d = (if serverReady d then AppReadyTimer else ServerReadyTimer)
     \<and> timerCalls d
         = [SetTimeout ServerReadyTimer (serverReadyTimeout cfg)]
           @ (if serverReady d
              then [ClearTimeout ServerReadyTimer, SetTimeout AppReadyTimer (appReadyTimeout cfg)]
              else [])
           @ (if appReady d then [ClearTimeout AppReadyTimer] else [])
     \<and> (\<forall>urls. serverStarting d = Some (Resolved urls) \<longrightarrow> appReady d)"

subsection \<open>The promise \<open>startIonicDevServer\<close> returns\<close>

text \<open>
  \<open>ansiRegex\<close> is matched by a backtracking matcher over the constructs the expression
  is written with: a character class, a sequence, a greedy optional part and a greedy
  repetition.  \<open>rmatch r s\<close> lists the rests of \<open>s\<close> after the matches of \<open>r\<close> at the
  beginning of \<open>s\<close>, in the order in which backtracking tries them; the head of the list is
  the match \<open>exec\<close> reports at that position.
\<close>

datatype re = Cls string | Seq re re | Opt re | Star re

function rmatch :: "re \<Rightarrow> string \<Rightarrow> string list" where
  "rmatch (Cls cs) s = (case s of [] \<Rightarrow> [] | c # rest \<Rightarrow> if c \<in> set cs then [rest] else [])"
| "rmatch (Seq a b) s = concat (map (rmatch b) (rmatch a s))"
| "rmatch (Opt a) s = rmatch a s @ [s]"
| "rmatch (Star a) s =
     concat (map (\<lambda>rest. if length rest < length s then rmatch (Star a) rest else [])
               (rmatch a s)) @ [s]"
  by pat_completeness auto
termination
  by (relation "measures [\<lambda>(r, s). size r, \<lambda>(r, s). length s]") auto

text \<open>\<open>s.replace(r, "")\<close> for an expression with the flag \<open>g\<close>.\<close>

function replace_empty :: "re \<Rightarrow> string \<Rightarrow> string" where
  "replace_empty r [] = []"
| "replace_empty r (c # cs) =
     (case rmatch r (c # cs) of
        [] \<Rightarrow> c # replace_empty r cs
      | rest # _ \<Rightarrow>
          if length rest < length (c # cs) then replace_empty r rest
          else c # replace_empty r cs)"
  by pat_completeness auto
termination
  by (relation "measure (\<lambda>(r, s). length s)") auto

text \<open>
  \<open>ansiRegex = /[\u001b\u009b][[()#;?]*(?:[0-9]{1,4}(?:;[0-9]{0,4})*)?[0-9A-ORZcf-nqry=><]/g\<close>;
  \<open>digits1to4\<close> is \<open>[0-9]{1,4}\<close>.
\<close>

definition digits1to4 :: re where
  "digits1to4 =
     Seq (Cls ''0123456789'') (Opt (Seq (Cls ''0123456789'') (Opt (Seq (Cls ''0123456789'')
       (Opt (Cls ''0123456789''))))))"

definition ansiRegex :: re where
  "ansiRegex =
     Seq (Cls [CHR 0x1B, CHR 0x9B])
       (Seq (Star (Cls ''[()#;?''))
          (Seq (Opt (Seq digits1to4 (Star (Seq (Cls '';'') (Opt digits1to4)))))
             (Cls ''0123456789ABCDEFGHIJKLMNORZcfghijklmnqry=><'')))"

text \<open>
  The callback of \<open>serverStarting.then\<close>: it throws when the list is absent or empty and
  otherwise returns the addresses with the escape sequences removed.  The promise the
  method returns is rejected with what the callback throws or with the reason
  \<open>serverStarting\<close> is rejected with, and is pending while \<open>serverStarting\<close> is.
\<close>

definition serverStarting_then :: "string list option \<Rightarrow> error + string list" where
  "serverStarting_then ionicDevServerUrls =
     (case ionicDevServerUrls of
        None \<Rightarrow> Inl (Error ''Unable to determine the Ionic dev server address, please try re-launching the debugger'')
      | Some [] \<Rightarrow> Inl (Error ''Unable to determine the Ionic dev server address, please try re-launching the debugger'')
      | Some (url # urls) \<Rightarrow> Inr (map (replace_empty ansiRegex) (url # urls)))"

definition returnedPromise :: "settlement option \<Rightarrow> settlement option" where
  "returnedPromise inner =
     (case inner of
        None \<Rightarrow> None
      | Some (Resolved ionicDevServerUrls) \<Rightarrow>
          (case serverStarting_then ionicDevServerUrls of
             Inl err \<Rightarrow> Some (RejectedError err)
           | Inr urls \<Rightarrow> Some (Resolved (Some urls)))
      | Some (RejectedMessage m) \<Rightarrow> Some (RejectedMessage m)
      | Some (RejectedError err) \<Rightarrow> Some (RejectedError err))"

text \<open>
  The method as a whole: the state of the promise it returned, after the events of the child
  process and of the timers that have occurred so far.
\<close>

definition startIonicDevServer ::
  "launchSetup \<Rightarrow> int option \<Rightarrow> event list \<Rightarrow> error + settlement option" where
  "startIonicDevServer cfg port events =
     (case run cfg (startDetector cfg port) events of
        Inl err \<Rightarrow> Inl err
      | Inr d \<Rightarrow> Inr (returnedPromise (serverStarting d)))"

section \<open>Example inputs\<close>



text \<open>
  Two running emulators, a chooser that picks the first label, and a target manager and a
  mobile platform built from the base class's \<open>selectTarget\<close> over a given snapshot.
\<close>

definition pixel :: IMobileTarget where
  "pixel = \<lparr>name = Some ''Pixel_3'', id' = Some ''emulator-5554'', isOnline = True,
             isVirtualTarget = True\<rparr>"

definition nexus :: IMobileTarget where
  "nexus = \<lparr>name = Some ''Nexus_5'', id' = Some ''emulator-5556'', isOnline = True,
             isVirtualTarget = True\<rparr>"

definition pickFirst :: "string option list \<Rightarrow> string option" where
  "pickFirst labels = (case labels of [] \<Rightarrow> None | l # _ \<Rightarrow> l)"

definition exampleManager :: "IMobileTarget list \<Rightarrow> AndroidTargetManager" where
  "exampleManager ts =
     \<lparr>manager_isVirtualTarget = MobileTargetManager_isVirtualTarget,
      manager_collectTargets = Inr (),
      manager_selectAndPrepareTarget =
        (\<lambda>f. case selectTarget pickFirst (Inr ts) (Some ts) (Some f) of
                Inl e \<Rightarrow> Inl e
              | Inr (picked, _) \<Rightarrow> Inr picked)\<rparr>"

definition examplePlatform :: "IMobileTarget list \<Rightarrow> AbstractMobilePlatform" where
  "examplePlatform ts =
     \<lparr>getTargetFromRunArgs = None,
      resolveMobileTarget =
        (\<lambda>t f. case selectTarget pickFirst (Inr ts) (Some ts) f of
                  Inl e \<Rightarrow> Inl e
                | Inr (picked, _) \<Rightarrow> Inr picked),
      getTargetsCountByFilter = (\<lambda>f. Inr (length (filter f ts)))\<rparr>"

text \<open>The number of targets of the same virtual/physical class as a given target.\<close>

definition sameClassCount :: "IMobileTarget \<Rightarrow> IMobileTarget list \<Rightarrow> nat" where
  "sameClassCount tgt ds = length (filter (\<lambda>device. isVirtualTarget tgt = isVirtualTarget device) ds)"


text \<open>
  A socket table as \<open>cat /proc/net/unix\<close> prints it: a connected socket, a listening
  socket of another application and the listening socket of the web view of process 1234.
\<close>

definition unixHeader :: string where
  "unixHeader = ''Num       RefCount Protocol Flags    Type St Inode Path''"

definition connectedLine :: string where
  "connectedLine =
     ''0000000000000000: 00000002 00000000 00010000 0001 02 12345 @webview_devtools_remote_1234''"

definition listeningLine :: string where
  "listeningLine =
     ''0000000000000000: 00000002 00000000 00010000 0001 01 12346 @webview_devtools_remote_1234''"

definition otherLine :: string where
  "otherLine =
     ''0000000000000000: 00000002 00000000 00010000 0001 01 12347 @chrome_devtools_remote''"

definition unixTable :: string where
  "unixTable = unixHeader @ [CHR 0x0A] @ connectedLine @ [CHR 0x0A] @ otherLine @ [CHR 0x0A]
                 @ listeningLine @ [CHR 0x0A]"


text \<open>Attempts during which the application's socket is not listening.\<close>

definition noSockets :: "nat \<Rightarrow> adbOutcomes" where
  "noSockets i = \<lparr>pidofOutcome = Inr ''1234'', psOutcome = Inr [],
                  socketsOutcome = Inr (unixHeader @ [CHR 0x0A] @ connectedLine)\<rparr>"


text \<open>
  A launch of \<open>ionic cordova run android --livereload\<close> with the default timeouts, the
  two chunks that complete its readiness, and the state they lead to.
\<close>

definition androidRun :: launchSetup where
  "androidRun = \<lparr>cliArgs = [''run'', ''android'', ''--verbose'', ''--livereload''],
                  isIonic4 = False, devServerTimeout = None, EOL = [CHR 0x0A],
                  getPortFromURL = (\<lambda>url. 8100)\<rparr>"

definition readyChunks :: "string list" where
  "readyChunks = [''Local: http://localhost:8100'' @ [CHR 0x0A], ''launch success'' @ [CHR 0x0A]]"

definition readyDetector :: detector where
  "readyDetector =
     \<lparr>serverReady = True, appReady = True,
      serverOut = ''Local: http://localhost:8100'' @ [CHR 0x0A] @ ''launch success'' @ [CHR 0x0A],
      serverErr = [], rejectTimeout = AppReadyTimer, timerPending = False,
      timerCalls = [SetTimeout ServerReadyTimer 60000, ClearTimeout ServerReadyTimer,
                    SetTimeout AppReadyTimer 120000, ClearTimeout AppReadyTimer],
      serverStarting = Some (Resolved (Some [''http://localhost:8100''])),
      devServerPort = Some 8100\<rparr>"


text \<open>The same launch when the tool prints an error line first.\<close>

definition errorFirstChunks :: "string list" where
  "errorFirstChunks =
     [''error: x'' @ [CHR 0x0A], ''Local: http://localhost:8100'' @ [CHR 0x0A],
      ''launch success'' @ [CHR 0x0A]]"

definition errorFirstDetector :: detector where
  "errorFirstDetector =
     \<lparr>serverReady = True, appReady = True,
      serverOut = ''error: x'' @ [CHR 0x0A] @ ''Local: http://localhost:8100'' @ [CHR 0x0A]
                    @ ''launch success'' @ [CHR 0x0A],
      serverErr = [], rejectTimeout = AppReadyTimer, timerPending = False,
      timerCalls = [SetTimeout ServerReadyTimer 60000, ClearTimeout ServerReadyTimer,
                    SetTimeout AppReadyTimer 120000, ClearTimeout AppReadyTimer],
      serverStarting =
        Some (RejectedError (Error (''Error in the Ionic live reload server: '' @ [CHR 0x0A]
                                      @ ''error: x''))),
      devServerPort = Some 8100\<rparr>"


text \<open>The state between the two chunks of \<open>readyChunks\<close>.\<close>

definition serverReadyDetector :: detector where
  "serverReadyDetector =
     \<lparr>serverReady = True, appReady = False,
      serverOut = ''Local: http://localhost:8100'' @ [CHR 0x0A],
      serverErr = [], rejectTimeout = AppReadyTimer, timerPending = True,
      timerCalls = [SetTimeout ServerReadyTimer 60000, ClearTimeout ServerReadyTimer,
                    SetTimeout AppReadyTimer 120000],
      serverStarting = None, devServerPort = None\<rparr>"


text \<open>
  The same launch with Ionic CLI 4, the line the CLI prints while it probes a port, and the
  state of the older launch after the bare text of the probe message.
\<close>

definition ionic4Run :: launchSetup where
  "ionic4Run = \<lparr>cliArgs = [''run'', ''android'', ''--verbose'', ''--livereload''],
                 isIonic4 = True, devServerTimeout = None, EOL = [CHR 0x0A],
                 getPortFromURL = (\<lambda>url. 8100)\<rparr>"

definition portProbeChunk :: string where
  "portProbeChunk =
     ''ionic:utils-network error while checking localhost:8100: Error: listen EADDRINUSE''
       @ [CHR 0x0A]"

definition pendingWithProbe :: detector where
  "pendingWithProbe =
     \<lparr>serverReady = False, appReady = False,
      serverOut = ''utils-network error while checking'',
      serverErr = [], rejectTimeout = ServerReadyTimer, timerPending = True,
      timerCalls = [SetTimeout ServerReadyTimer 60000],
      serverStarting = None, devServerPort = None\<rparr>"







text \<open>
  The listening socket that the application opens under its own package name, a table
  that lists it before the socket of the web view, and a device bridge on which \<open>pidof\<close>
  prints \<open>1234\<close> and \<open>cat /proc/net/unix\<close> prints a given table.
\<close>

definition crosswalkLine :: string where
  "crosswalkLine =
     ''0000000000000000: 00000002 00000000 00010000 0001 01 12348 @io.cordova.hello_devtools_remote''"

definition packageSocketFirstTable :: string where
  "packageSocketFirstTable = unixHeader @ [CHR 0x0A] @ crosswalkLine @ [CHR 0x0A]
                               @ listeningLine @ [CHR 0x0A]"

definition deviceBridge :: "string \<Rightarrow> adbOutcomes" where
  "deviceBridge table = \<lparr>pidofOutcome = Inr (''1234'' @ [CHR 0x0A]), psOutcome = Inr [],
                          socketsOutcome = Inr table\<rparr>"

text \<open>
  The server-ready line as a CLI that colours its output prints it, with the address between
  the escape sequences for bold and normal weight, and the state of the launch after that
  line.  Then the two lines of readiness in one chunk.
\<close>

definition colouredLine :: string where
  "colouredLine = ''Local: '' @ [CHR 0x1B] @ ''[1mhttp://localhost:8100'' @ [CHR 0x1B] @ ''[22m''
                    @ [CHR 0x0A]"

definition colouredServerReadyDetector :: detector where
  "colouredServerReadyDetector =
     \<lparr>serverReady = True, appReady = False,
      serverOut = colouredLine,
      serverErr = [], rejectTimeout = AppReadyTimer, timerPending = True,
      timerCalls = [SetTimeout ServerReadyTimer 60000, ClearTimeout ServerReadyTimer,
                    SetTimeout AppReadyTimer 120000],
      serverStarting = None, devServerPort = None\<rparr>"

definition readyChunk :: string where
  "readyChunk = ''Local: http://localhost:8100'' @ [CHR 0x0A] @ ''launch success'' @ [CHR 0x0A]"



section \<open>Facts about strings\<close>

lemma startsWith_iff: "startsWith s p \<longleftrightarrow> (\<exists>q. s = p @ q)"
  by (induction s p rule: startsWith.induct) auto

lemma includes_iff: "includes_str s sub \<longleftrightarrow> (\<exists>p q. s = p @ sub @ q)"
proof (induction s)
  case Nil
  then show ?case by auto
next
  case (Cons c cs)
  show ?case
  proof
    assume "includes_str (c # cs) sub"
    then consider "startsWith (c # cs) sub" | "includes_str cs sub" by auto
    then show "\<exists>p q. c # cs = p @ sub @ q"
    proof cases
      case 1
      then obtain q where "c # cs = sub @ q" by (auto simp: startsWith_iff)
      then have "c # cs = [] @ sub @ q" by simp
      then show ?thesis by blast
    next
      case 2
      then obtain p q where "cs = p @ sub @ q" using Cons.IH by blast
      then have "c # cs = (c # p) @ sub @ q" by simp
      then show ?thesis by blast
    qed
  next
    assume "\<exists>p q. c # cs = p @ sub @ q"
    then obtain p q where pq: "c # cs = p @ sub @ q" by blast
    show "includes_str (c # cs) sub"
    proof (cases p)
      case Nil
      with pq have "startsWith (c # cs) sub" by (auto simp: startsWith_iff)
      then show ?thesis by simp
    next
      case (Cons a p')
      with pq have "cs = p' @ sub @ q" by simp
      then have "includes_str cs sub" using Cons.IH by blast
      then show ?thesis by simp
    qed
  qed
qed

section \<open>Target classification\<close>

text \<open>
  Claim C10.  \<open>isVirtualTarget\<close> is not a total classifier: a target string that contains
  \<open>device\<close> gives false, also when it contains \<open>emulator\<close> as well; a string that contains
  \<open>emulator\<close> and not \<open>device\<close> gives true; a string that contains neither gives no boolean
  but the error "Could not recognize type of the target".
\<close>

theorem isVirtualTarget_three_cases:
  "((\<exists>p q. tgt = p @ ''device'' @ q) \<longrightarrow> MobileTargetManager_isVirtualTarget tgt = Inr False) \<and>
   ((\<exists>p q. tgt = p @ ''emulator'' @ q) \<and> \<not> (\<exists>p q. tgt = p @ ''device'' @ q)
      \<longrightarrow> MobileTargetManager_isVirtualTarget tgt = Inr True) \<and>
   (\<not> (\<exists>p q. tgt = p @ ''emulator'' @ q) \<and> \<not> (\<exists>p q. tgt = p @ ''device'' @ q)
      \<longrightarrow> MobileTargetManager_isVirtualTarget tgt
            = Inl (Error (''Could not recognize type of the target '' @ tgt)))"
  unfolding includes_iff [symmetric] by (simp add: MobileTargetManager_isVirtualTarget_def)

theorem isVirtualTarget_three_cases_witness:
  "MobileTargetManager_isVirtualTarget ''emulator-device'' = Inr False \<and>
   MobileTargetManager_isVirtualTarget ''emulator-5554'' = Inr True \<and>
   MobileTargetManager_isVirtualTarget ''Pixel_3'' = Inl (Error ''Could not recognize type of the target Pixel_3'')"
proof -
  have d1: "\<exists>p q. ''emulator-device'' = p @ ''device'' @ q"
    unfolding includes_iff [symmetric] by simp
  have e2: "\<exists>p q. ''emulator-5554'' = p @ ''emulator'' @ q"
    unfolding includes_iff [symmetric] by simp
  have d2: "\<not> (\<exists>p q. ''emulator-5554'' = p @ ''device'' @ q)"
    unfolding includes_iff [symmetric] by simp
  have e3: "\<not> (\<exists>p q. ''Pixel_3'' = p @ ''emulator'' @ q)"
    unfolding includes_iff [symmetric] by simp
  have d3: "\<not> (\<exists>p q. ''Pixel_3'' = p @ ''device'' @ q)"
    unfolding includes_iff [symmetric] by simp
  from isVirtualTarget_three_cases [of "''emulator-device''"] d1
  have "MobileTargetManager_isVirtualTarget ''emulator-device'' = Inr False" by blast
  moreover from isVirtualTarget_three_cases [of "''emulator-5554''"] e2 d2
  have "MobileTargetManager_isVirtualTarget ''emulator-5554'' = Inr True" by blast
  moreover from isVirtualTarget_three_cases [of "''Pixel_3''"] e3 d3
  have "MobileTargetManager_isVirtualTarget ''Pixel_3'' = Inl (Error ''Could not recognize type of the target Pixel_3'')"
    by simp
  ultimately show ?thesis by blast
qed

section \<open>Target selection\<close>











section \<open>Saving the resolved target\<close>

lemmas example_defs = pixel_def nexus_def pickFirst_def exampleManager_def examplePlatform_def
  selectTarget_def getTargetList_def targetLabel_def js_or_def toLowerCase_def toLowerChar_def
  MobileTargetManager_isVirtualTarget_def saveResult_def isAnyTarget_def

lemma resolveAndSaveMobileTarget_written:
  assumes "resolveAndSaveMobileTarget mp args isAttach = Inr written" "written \<noteq> []"
  shows "\<exists>t rt n. target args = Some t \<and> isAnyTarget t
            \<and> resolveMobileTarget mp t (if isAttach then Some isOnline else None) = Inr (Some rt)
            \<and> getTargetsCountByFilter mp (\<lambda>tg. isVirtualTarget tg = isVirtualTarget rt) = Inr n
            \<and> 1 < n
            \<and> written = [if platform args = Some ''android'' then name rt else id' rt]"
  using assms
  by (cases "target args")
     (auto simp: resolveAndSaveMobileTarget_def Let_def split: if_splits sum.splits option.splits)

lemma resolveAndroidTarget_attach_saved:
  assumes "resolveAndroidTarget online mgr cfgTarget True = Inr r" "saved r \<noteq> []"
  shows "\<exists>t dev ds. cfgTarget = Some t \<and> isAnyTarget t \<and> targetDevice r = Some dev
            \<and> online = Inr ds \<and> 1 < sameClassCount dev ds \<and> saved r = [name dev]"
  using assms
  by (cases cfgTarget)
     (auto simp: resolveAndroidTarget_def getFirstOnlineAndroidTarget_def saveResult_def
        isAnyTarget_def sameClassCount_def Let_def
        split: if_splits sum.splits option.splits list.splits)

lemma resolveAndroidTarget_launch_saved:
  assumes "resolveAndroidTarget online mgr cfgTarget False = Inr r"
  shows "saved r = (case targetDevice r of
                      None \<Rightarrow> []
                    | Some dev \<Rightarrow> if \<exists>t. cfgTarget = Some t \<and> isAnyTarget t then [name dev] else [])"
  using assms
  by (cases cfgTarget)
     (auto simp: resolveAndroidTarget_def getFirstOnlineAndroidTarget_def saveResult_def
        isAnyTarget_def toLowerCase_def Let_def
        split: if_splits sum.splits option.splits list.splits)

text \<open>
  Claim C3 fails on the launch path of \<open>resolveAndroidTarget\<close>: with the generic target
  \<open>emulator\<close> and a single emulator, the only candidate is written to the launch
  configuration.
\<close>

theorem launch_saves_single_candidate_counterexample:
  "resolveAndroidTarget (Inr [pixel]) (exampleManager [pixel]) (Some ''emulator'') False
     = Inr \<lparr>targetDevice = Some pixel, configTarget = Some ''emulator-5554'',
            saved = [Some ''Pixel_3'']\<rparr>"
  by (simp add: resolveAndroidTarget_def example_defs)

text \<open>
  Claim C3, amended.  \<open>resolveAndSaveMobileTarget\<close> writes the resolved target to the launch
  configuration only when the requested target is the generic \<open>emulator\<close> or \<open>device\<close> and
  the platform counts more than one target of the resolved target's class; so does
  \<open>resolveAndroidTarget\<close> in the attach scenario, counting the online targets.  In the launch
  scenario \<open>resolveAndroidTarget\<close> writes every resolved generic target, whatever the number
  of candidates.  An explicit target is never written.
\<close>

theorem saved_only_when_ambiguous_or_android_launch:
  "(resolveAndSaveMobileTarget mp args isAttach = Inr written \<and> written \<noteq> [] \<longrightarrow>
      (\<exists>t rt n. target args = Some t \<and> isAnyTarget t
          \<and> resolveMobileTarget mp t (if isAttach then Some isOnline else None) = Inr (Some rt)
          \<and> getTargetsCountByFilter mp (\<lambda>tg. isVirtualTarget tg = isVirtualTarget rt) = Inr n
          \<and> 1 < n
          \<and> written = [if platform args = Some ''android'' then name rt else id' rt]))
   \<and> (resolveAndroidTarget online mgr cfgTarget True = Inr r \<and> saved r \<noteq> [] \<longrightarrow>
        (\<exists>t dev ds. cfgTarget = Some t \<and> isAnyTarget t \<and> targetDevice r = Some dev
            \<and> online = Inr ds \<and> 1 < sameClassCount dev ds \<and> saved r = [name dev]))
   \<and> (resolveAndroidTarget online mgr cfgTarget False = Inr r' \<longrightarrow>
        saved r' = (case targetDevice r' of
                      None \<Rightarrow> []
                    | Some dev \<Rightarrow>
                        if \<exists>t. cfgTarget = Some t \<and> isAnyTarget t then [name dev] else []))"
  using resolveAndSaveMobileTarget_written [of mp args isAttach written]
    resolveAndroidTarget_attach_saved [of online mgr cfgTarget r]
    resolveAndroidTarget_launch_saved [of online mgr cfgTarget r']
  by blast

theorem saved_only_when_ambiguous_or_android_launch_witness:
  "resolveAndSaveMobileTarget (examplePlatform [pixel, nexus])
       \<lparr>target = Some ''emulator'', platform = Some ''android''\<rparr> False
     = Inr [Some ''Pixel_3'']
   \<and> (\<exists>n. getTargetsCountByFilter (examplePlatform [pixel, nexus])
            (\<lambda>tg. isVirtualTarget tg = isVirtualTarget pixel) = Inr n \<and> 1 < n)
   \<and> resolveAndroidTarget (Inr [pixel, nexus]) (exampleManager [pixel, nexus])
       (Some ''emulator'') True
     = Inr \<lparr>targetDevice = Some pixel, configTarget = Some ''emulator-5554'',
            saved = [Some ''Pixel_3'']\<rparr>
   \<and> 1 < sameClassCount pixel [pixel, nexus]
   \<and> resolveAndroidTarget (Inr [pixel]) (exampleManager [pixel]) (Some ''emulator'') False
     = Inr \<lparr>targetDevice = Some pixel, configTarget = Some ''emulator-5554'',
            saved = [Some ''Pixel_3'']\<rparr>
   \<and> saved \<lparr>targetDevice = Some pixel, configTarget = Some ''emulator-5554'',
             saved = [Some ''Pixel_3'']\<rparr> = [name pixel]"
proof -
  have a: "resolveAndSaveMobileTarget (examplePlatform [pixel, nexus])
             \<lparr>target = Some ''emulator'', platform = Some ''android''\<rparr> False
           = Inr [Some ''Pixel_3''] \<and> [Some ''Pixel_3''] \<noteq> []"
    by (simp add: resolveAndSaveMobileTarget_def example_defs)
  have b: "resolveAndroidTarget (Inr [pixel, nexus]) (exampleManager [pixel, nexus])
             (Some ''emulator'') True
           = Inr \<lparr>targetDevice = Some pixel, configTarget = Some ''emulator-5554'',
                  saved = [Some ''Pixel_3'']\<rparr>
         \<and> saved \<lparr>targetDevice = Some pixel, configTarget = Some ''emulator-5554'',
                  saved = [Some ''Pixel_3'']\<rparr> \<noteq> []"
    by (simp add: resolveAndroidTarget_def example_defs)
  have c: "resolveAndroidTarget (Inr [pixel]) (exampleManager [pixel]) (Some ''emulator'') False
           = Inr \<lparr>targetDevice = Some pixel, configTarget = Some ''emulator-5554'',
                  saved = [Some ''Pixel_3'']\<rparr>"
    by (simp add: resolveAndroidTarget_def example_defs)
  note inst = saved_only_when_ambiguous_or_android_launch
    [of "examplePlatform [pixel, nexus]" "\<lparr>target = Some ''emulator'', platform = Some ''android''\<rparr>"
        False "[Some ''Pixel_3'']" "Inr [pixel, nexus]" "exampleManager [pixel, nexus]"
        "Some ''emulator''"
        "\<lparr>targetDevice = Some pixel, configTarget = Some ''emulator-5554'',
          saved = [Some ''Pixel_3'']\<rparr>"]
  from inst a have 1: "\<exists>n. getTargetsCountByFilter (examplePlatform [pixel, nexus])
            (\<lambda>tg. isVirtualTarget tg = isVirtualTarget pixel) = Inr n \<and> 1 < n"
    by (auto simp: examplePlatform_def pixel_def nexus_def)
  from inst b have 2: "1 < sameClassCount pixel [pixel, nexus]"
    by auto
  from saved_only_when_ambiguous_or_android_launch
    [of "examplePlatform []" "\<lparr>target = None, platform = None\<rparr>" False "[]"
        "Inr [pixel]" "exampleManager [pixel]" "Some ''emulator''"
        "\<lparr>targetDevice = None, configTarget = None, saved = []\<rparr>"
        "\<lparr>targetDevice = Some pixel, configTarget = Some ''emulator-5554'',
          saved = [Some ''Pixel_3'']\<rparr>"] c
  have 3: "saved \<lparr>targetDevice = Some pixel, configTarget = Some ''emulator-5554'',
             saved = [Some ''Pixel_3'']\<rparr> = [name pixel]"
    by (simp add: isAnyTarget_def toLowerCase_def toLowerChar_def)
  from a have a': "resolveAndSaveMobileTarget (examplePlatform [pixel, nexus])
             \<lparr>target = Some ''emulator'', platform = Some ''android''\<rparr> False
           = Inr [Some ''Pixel_3'']" by (rule conjunct1)
  from b have b': "resolveAndroidTarget (Inr [pixel, nexus]) (exampleManager [pixel, nexus])
             (Some ''emulator'') True
           = Inr \<lparr>targetDevice = Some pixel, configTarget = Some ''emulator-5554'',
                  saved = [Some ''Pixel_3'']\<rparr>" by (rule conjunct1)
  from a' 1 b' 2 c 3 show ?thesis by (intro conjI)
qed

section \<open>The socket table\<close>

lemma webview_path_includes:
  "includes_str (''@webview_devtools_remote_'' @ pid) ''_devtools_remote''"
proof -
  have "''@webview_devtools_remote_'' @ pid = ''@webview'' @ ''_devtools_remote'' @ (''_'' @ pid)"
    by simp
  then show ?thesis unfolding includes_iff by blast
qed

lemma kernel_header_indices:
  assumes "take 8 keys = [''Num'', ''RefCount'', ''Protocol'', ''Flags'', ''Type'', ''St'',
                          ''Inode'', ''Path'']"
  shows "indexOf keys ''Flags'' = 3" "indexOf keys ''St'' = 5" "indexOf keys ''Path'' = 7"
proof -
  have "keys = take 8 keys @ drop 8 keys" by simp
  with assms have k: "keys = [''Num'', ''RefCount'', ''Protocol'', ''Flags'', ''Type'', ''St'',
                          ''Inode'', ''Path''] @ drop 8 keys" by simp
  show "indexOf keys ''Flags'' = 3" by (subst k) simp
  show "indexOf keys ''St'' = 5" by (subst k) simp
  show "indexOf keys ''Path'' = 7" by (subst k) simp
qed

lemma package_path_includes:
  "includes_str (''@'' @ pkg @ ''_devtools_remote'') ''_devtools_remote''"
proof -
  have "''@'' @ pkg @ ''_devtools_remote'' = (''@'' @ pkg) @ ''_devtools_remote'' @ []"
    by simp
  then show ?thesis unfolding includes_iff by blast
qed

text \<open>The loop body on a table with the kernel's columns.\<close>

lemma socketLine_kernel:
  "socketLine 3 5 7 pid pkg row
     = Inr (if at (splitRuns isSpace row) 3 = Some ''00010000''
               \<and> at (splitRuns isSpace row) 5 = Some ''01''
               \<and> (at (splitRuns isSpace row) 7 = Some (''@webview_devtools_remote_'' @ render pid)
                    \<or> at (splitRuns isSpace row) 7
                         = Some (''@'' @ render pkg @ ''_devtools_remote''))
            then map_option (drop 1) (at (splitRuns isSpace row) 7)
            else None)"
proof (cases "length (splitRuns isSpace row) < 8")
  case True
  then have "at (splitRuns isSpace row) 7 = None" by (simp add: at_def)
  with True show ?thesis by (simp add: socketLine_def Let_def)
next
  case False
  then obtain p where p: "at (splitRuns isSpace row) 7 = Some p" by (simp add: at_def)
  show ?thesis
    using False p webview_path_includes [of "render pid"] package_path_includes [of "render pkg"]
    by (auto simp: socketLine_def Let_def)
qed

lemma socketLines_kernel:
  "socketLines 3 5 7 pid pkg rows
     = Inr (case find (\<lambda>row. at (splitRuns isSpace row) 3 = Some ''00010000''
                            \<and> at (splitRuns isSpace row) 5 = Some ''01''
                            \<and> (at (splitRuns isSpace row) 7
                                   = Some (''@webview_devtools_remote_'' @ render pid)
                                 \<or> at (splitRuns isSpace row) 7
                                   = Some (''@'' @ render pkg @ ''_devtools_remote''))) rows of
              None \<Rightarrow> None
            | Some row \<Rightarrow> map_option (drop 1) (at (splitRuns isSpace row) 7))"
proof (induction rows)
  case Nil
  show ?case by simp
next
  case (Cons row rows)
  show ?case
    unfolding socketLines.simps socketLine_kernel [of pid pkg row] Cons.IH
    by auto
qed

lemma findAbstractNameFunction_kernel:
  assumes "findPid marker psSplit adb pkg = Inr pid"
    and "socketsOutcome adb = Inr table"
    and "splitOnChar CHR 0x0A table = header # rows"
    and "take 8 (splitRuns isSpace header)
           = [''Num'', ''RefCount'', ''Protocol'', ''Flags'', ''Type'', ''St'', ''Inode'', ''Path'']"
  shows "findAbstractNameFunction marker psSplit adb pkg = socketLines 3 5 7 pid pkg rows"
  using assms(1-3) kernel_header_indices [OF assms(4)]
  by (simp add: findAbstractNameFunction_def parseSockets_def)

lemma find_without_rejected:
  "\<not> P row \<Longrightarrow> find P (before @ row # after) = find P (before @ after)"
  by (induction before) auto

lemma find_first_accepted:
  "P row \<Longrightarrow> \<forall>r\<in>set before. \<not> P r \<Longrightarrow> find P (before @ row # after) = Some row"
  by (induction before) auto

text \<open>
  Claim C4.  The resolver, on a table with the kernel's columns (\<open>Num RefCount Protocol
  Flags Type St Inode Path\<close>) and with the process id it resolved: a row is accepted when
  its Flags field is \<open>00010000\<close>, its St field is \<open>01\<close> and its Path field is
  \<open>@webview_devtools_remote_<pid>\<close> or \<open>@<packageId>_devtools_remote\<close>; the resolver
  returns the path, without its leading \<open>@\<close>, of the first accepted row of the table, and
  nothing when no row is accepted.  So a row with the three fields of the claim makes the
  resolver return \<open>webview_devtools_remote_<pid>\<close> when no row before it is accepted; and a
  row whose St field is \<open>02\<close>, or whose Path field is neither of the two paths, is
  skipped: the resolver returns what it returns on the table without that row.  The
  resolved process id is the trimmed output of \<open>pidof\<close> when that is a number.
\<close>

theorem socket_table_resolution:
  assumes "findPid marker psSplit adb pkg = Inr pid"
    and "socketsOutcome adb = Inr table"
    and "splitOnChar CHR 0x0A table = header # rows"
    and "take 8 (splitRuns isSpace header)
           = [''Num'', ''RefCount'', ''Protocol'', ''Flags'', ''Type'', ''St'', ''Inode'', ''Path'']"
  shows "findAbstractNameFunction marker psSplit adb pkg
           = Inr (case find (\<lambda>row. at (splitRuns isSpace row) 3 = Some ''00010000''
                                  \<and> at (splitRuns isSpace row) 5 = Some ''01''
                                  \<and> (at (splitRuns isSpace row) 7
                                         = Some (''@webview_devtools_remote_'' @ render pid)
                                       \<or> at (splitRuns isSpace row) 7
                                         = Some (''@'' @ render pkg @ ''_devtools_remote''))) rows of
                    None \<Rightarrow> None
                  | Some row \<Rightarrow> map_option (drop 1) (at (splitRuns isSpace row) 7))
       \<and> (rows = before @ line # after
            \<and> at (splitRuns isSpace line) 3 = Some ''00010000''
            \<and> at (splitRuns isSpace line) 5 = Some ''01''
            \<and> at (splitRuns isSpace line) 7 = Some (''@webview_devtools_remote_'' @ render pid)
            \<and> (\<forall>r\<in>set before.
                  \<not> (at (splitRuns isSpace r) 3 = Some ''00010000''
                     \<and> at (splitRuns isSpace r) 5 = Some ''01''
                     \<and> (at (splitRuns isSpace r) 7
                            = Some (''@webview_devtools_remote_'' @ render pid)
                          \<or> at (splitRuns isSpace r) 7
                            = Some (''@'' @ render pkg @ ''_devtools_remote''))))
          \<longrightarrow> findAbstractNameFunction marker psSplit adb pkg
                = Inr (Some (''webview_devtools_remote_'' @ render pid)))
       \<and> (rows = before @ line # after
            \<and> (at (splitRuns isSpace line) 5 = Some ''02''
                 \<or> (\<exists>p. at (splitRuns isSpace line) 7 = Some p
                        \<and> p \<noteq> ''@webview_devtools_remote_'' @ render pid
                        \<and> p \<noteq> ''@'' @ render pkg @ ''_devtools_remote''))
            \<and> findPid marker psSplit adb' pkg = Inr pid
            \<and> socketsOutcome adb' = Inr table'
            \<and> splitOnChar CHR 0x0A table' = header # before @ after
          \<longrightarrow> findAbstractNameFunction marker psSplit adb pkg
                = findAbstractNameFunction marker psSplit adb' pkg)
       \<and> (pidofOutcome adb = Inr out \<and> out \<noteq> [] \<and> trim out \<noteq> []
            \<and> list_all isDigit (trim out)
          \<longrightarrow> pid = Some (trim out))"
proof -
  define acc where "acc = (\<lambda>row. at (splitRuns isSpace row) 3 = Some ''00010000''
                  \<and> at (splitRuns isSpace row) 5 = Some ''01''
                  \<and> (at (splitRuns isSpace row) 7
                         = Some (''@webview_devtools_remote_'' @ render pid)
                       \<or> at (splitRuns isSpace row) 7
                         = Some (''@'' @ render pkg @ ''_devtools_remote'')))"
  define answer where "answer = (\<lambda>found. case found of
                    None \<Rightarrow> None
                  | Some row \<Rightarrow> map_option (drop 1) (at (splitRuns isSpace row) 7))"
  have res: "findAbstractNameFunction marker psSplit adb pkg = socketLines 3 5 7 pid pkg rows"
    using assms by (rule findAbstractNameFunction_kernel)
  have loop: "socketLines 3 5 7 pid pkg rs = Inr (answer (find acc rs))" for rs
    unfolding acc_def answer_def by (rule socketLines_kernel)
  have first: "findAbstractNameFunction marker psSplit adb pkg = Inr (answer (find acc rows))"
    unfolding res by (rule loop)
  have c2: "findAbstractNameFunction marker psSplit adb pkg
                = Inr (Some (''webview_devtools_remote_'' @ render pid))"
    if rows: "rows = before @ line # after"
      and f3: "at (splitRuns isSpace line) 3 = Some ''00010000''"
      and f5: "at (splitRuns isSpace line) 5 = Some ''01''"
      and f7: "at (splitRuns isSpace line) 7 = Some (''@webview_devtools_remote_'' @ render pid)"
      and earlier: "\<forall>r\<in>set before. \<not> acc r"
  proof -
    from f3 f5 f7 have accepted: "acc line" unfolding acc_def by blast
    from accepted earlier have "find acc (before @ line # after) = Some line"
      by (rule find_first_accepted)
    then have "answer (find acc rows) = map_option (drop 1) (at (splitRuns isSpace line) 7)"
      unfolding rows answer_def by simp
    also have "\<dots> = Some (''webview_devtools_remote_'' @ render pid)"
      unfolding f7 by simp
    finally show ?thesis unfolding first by simp
  qed
  have c3: "findAbstractNameFunction marker psSplit adb pkg
                = findAbstractNameFunction marker psSplit adb' pkg"
    if rows: "rows = before @ line # after"
      and rejected: "\<not> acc line"
      and pid': "findPid marker psSplit adb' pkg = Inr pid"
      and tbl': "socketsOutcome adb' = Inr table'"
      and lines': "splitOnChar CHR 0x0A table' = header # before @ after"
  proof -
    from rejected have "find acc (before @ line # after) = find acc (before @ after)"
      by (rule find_without_rejected)
    then have "findAbstractNameFunction marker psSplit adb pkg
                 = socketLines 3 5 7 pid pkg (before @ after)"
      unfolding first rows loop by simp
    also have "\<dots> = findAbstractNameFunction marker psSplit adb' pkg"
      using findAbstractNameFunction_kernel [OF pid' tbl' lines' assms(4)] by simp
    finally show ?thesis .
  qed
  have rej: "\<not> acc line"
    if "at (splitRuns isSpace line) 5 = Some ''02''
          \<or> (\<exists>p. at (splitRuns isSpace line) 7 = Some p
                 \<and> p \<noteq> ''@webview_devtools_remote_'' @ render pid
                 \<and> p \<noteq> ''@'' @ render pkg @ ''_devtools_remote'')"
    using that unfolding acc_def by auto
  have c4: "pid = Some (trim out)"
    if "pidofOutcome adb = Inr out" "out \<noteq> []" "trim out \<noteq> []" "list_all isDigit (trim out)"
    using assms(1) that by (simp add: findPid_def)
  show ?thesis
  proof (intro conjI impI)
    show "findAbstractNameFunction marker psSplit adb pkg
           = Inr (case find (\<lambda>row. at (splitRuns isSpace row) 3 = Some ''00010000''
                                  \<and> at (splitRuns isSpace row) 5 = Some ''01''
                                  \<and> (at (splitRuns isSpace row) 7
                                         = Some (''@webview_devtools_remote_'' @ render pid)
                                       \<or> at (splitRuns isSpace row) 7
                                         = Some (''@'' @ render pkg @ ''_devtools_remote''))) rows of
                    None \<Rightarrow> None
                  | Some row \<Rightarrow> map_option (drop 1) (at (splitRuns isSpace row) 7))"
      using first unfolding acc_def answer_def .
  next
    assume h: "rows = before @ line # after
            \<and> at (splitRuns isSpace line) 3 = Some ''00010000''
            \<and> at (splitRuns isSpace line) 5 = Some ''01''
            \<and> at (splitRuns isSpace line) 7 = Some (''@webview_devtools_remote_'' @ render pid)
            \<and> (\<forall>r\<in>set before.
                  \<not> (at (splitRuns isSpace r) 3 = Some ''00010000''
                     \<and> at (splitRuns isSpace r) 5 = Some ''01''
                     \<and> (at (splitRuns isSpace r) 7
                            = Some (''@webview_devtools_remote_'' @ render pid)
                          \<or> at (splitRuns isSpace r) 7
                            = Some (''@'' @ render pkg @ ''_devtools_remote''))))"
    then have "\<forall>r\<in>set before. \<not> acc r" unfolding acc_def by (elim conjE)
    with h show "findAbstractNameFunction marker psSplit adb pkg
                = Inr (Some (''webview_devtools_remote_'' @ render pid))"
      by (elim conjE) (rule c2)
  next
    assume h: "rows = before @ line # after
            \<and> (at (splitRuns isSpace line) 5 = Some ''02''
                 \<or> (\<exists>p. at (splitRuns isSpace line) 7 = Some p
                        \<and> p \<noteq> ''@webview_devtools_remote_'' @ render pid
                        \<and> p \<noteq> ''@'' @ render pkg @ ''_devtools_remote''))
            \<and> findPid marker psSplit adb' pkg = Inr pid
            \<and> socketsOutcome adb' = Inr table'
            \<and> splitOnChar CHR 0x0A table' = header # before @ after"
    then have "\<not> acc line" by (elim conjE) (rule rej)
    with h show "findAbstractNameFunction marker psSplit adb pkg
                = findAbstractNameFunction marker psSplit adb' pkg"
      by (elim conjE) (rule c3)
  next
    assume "pidofOutcome adb = Inr out \<and> out \<noteq> [] \<and> trim out \<noteq> []
              \<and> list_all isDigit (trim out)"
    then show "pid = Some (trim out)" by (elim conjE) (rule c4)
  qed
qed

lemma unixTable_lines:
  "splitOnChar CHR 0x0A unixTable = unixHeader # [connectedLine, otherLine] @ listeningLine # [[]]"
  by (simp add: unixTable_def unixHeader_def connectedLine_def otherLine_def listeningLine_def)

lemma unixHeader_keys:
  "splitRuns isSpace unixHeader
     = [''Num'', ''RefCount'', ''Protocol'', ''Flags'', ''Type'', ''St'', ''Inode'', ''Path'']"
  by (simp add: unixHeader_def isSpace_def)

lemma listeningLine_fields:
  "splitRuns isSpace listeningLine
     = [''0000000000000000:'', ''00000002'', ''00000000'', ''00010000'', ''0001'', ''01'',
        ''12346'', ''@webview_devtools_remote_1234'']"
  by (simp add: listeningLine_def isSpace_def)

lemma connectedLine_fields:
  "splitRuns isSpace connectedLine
     = [''0000000000000000:'', ''00000002'', ''00000000'', ''00010000'', ''0001'', ''02'',
        ''12345'', ''@webview_devtools_remote_1234'']"
  by (simp add: connectedLine_def isSpace_def)

lemma otherLine_fields:
  "splitRuns isSpace otherLine
     = [''0000000000000000:'', ''00000002'', ''00000000'', ''00010000'', ''0001'', ''01'',
        ''12347'', ''@chrome_devtools_remote'']"
  by (simp add: otherLine_def isSpace_def)

lemma crosswalkLine_fields:
  "splitRuns isSpace crosswalkLine
     = [''0000000000000000:'', ''00000002'', ''00000000'', ''00010000'', ''0001'', ''01'',
        ''12348'', ''@io.cordova.hello_devtools_remote'']"
  by (simp add: crosswalkLine_def isSpace_def)

lemma deviceBridge_pid:
  "findPid ''/system/bin/sh: pidof: not found'' (splitRuns isSpace) (deviceBridge table)
     (Some ''io.cordova.hello'') = Inr (Some ''1234'')"
  by (simp add: findPid_def deviceBridge_def trim_def isSpace_def isDigit_def)

lemma unixHeader_take:
  "take 8 (splitRuns isSpace unixHeader)
     = [''Num'', ''RefCount'', ''Protocol'', ''Flags'', ''Type'', ''St'', ''Inode'', ''Path'']"
  by (simp add: unixHeader_keys)

lemma connectedOnly_lines:
  "splitOnChar CHR 0x0A (unixHeader @ [CHR 0x0A] @ otherLine @ [CHR 0x0A] @ listeningLine
                           @ [CHR 0x0A])
     = unixHeader # [] @ [otherLine, listeningLine, []]"
  by (simp add: unixHeader_def otherLine_def listeningLine_def)

lemma unixTable_lines_connected:
  "splitOnChar CHR 0x0A unixTable = unixHeader # [] @ connectedLine # [otherLine, listeningLine, []]"
  by (simp add: unixTable_lines)

theorem socket_table_resolution_witness:
  "findAbstractNameFunction ''/system/bin/sh: pidof: not found'' (splitRuns isSpace)
       (deviceBridge unixTable) (Some ''io.cordova.hello'')
     = Inr (Some ''webview_devtools_remote_1234'')
   \<and> findAbstractNameFunction ''/system/bin/sh: pidof: not found'' (splitRuns isSpace)
       (deviceBridge unixTable) (Some ''io.cordova.hello'')
     = findAbstractNameFunction ''/system/bin/sh: pidof: not found'' (splitRuns isSpace)
         (deviceBridge (unixHeader @ [CHR 0x0A] @ otherLine @ [CHR 0x0A] @ listeningLine
                          @ [CHR 0x0A]))
         (Some ''io.cordova.hello'')
   \<and> Some ''1234'' = Some (trim (''1234'' @ [CHR 0x0A]))"
proof -
  have tbl: "socketsOutcome (deviceBridge unixTable) = Inr unixTable"
    by (simp add: deviceBridge_def)
  note inst = socket_table_resolution
    [OF deviceBridge_pid tbl unixTable_lines unixHeader_take,
     where line = listeningLine and before = "[connectedLine, otherLine]" and after = "[[]]"
       and out = "''1234'' @ [CHR 0x0A]"]
  have row: "at (splitRuns isSpace listeningLine) 3 = Some ''00010000''
      \<and> at (splitRuns isSpace listeningLine) 5 = Some ''01''
      \<and> at (splitRuns isSpace listeningLine) 7
          = Some (''@webview_devtools_remote_'' @ render (Some ''1234''))"
    by (simp add: listeningLine_fields at_def)
  have earlier: "\<forall>r\<in>set [connectedLine, otherLine].
      \<not> (at (splitRuns isSpace r) 3 = Some ''00010000''
         \<and> at (splitRuns isSpace r) 5 = Some ''01''
         \<and> (at (splitRuns isSpace r) 7
                = Some (''@webview_devtools_remote_'' @ render (Some ''1234''))
              \<or> at (splitRuns isSpace r) 7
                = Some (''@'' @ render (Some ''io.cordova.hello'') @ ''_devtools_remote'')))"
    by (simp add: connectedLine_fields otherLine_fields at_def)
  from inst row earlier
  have "findAbstractNameFunction ''/system/bin/sh: pidof: not found'' (splitRuns isSpace)
       (deviceBridge unixTable) (Some ''io.cordova.hello'')
     = Inr (Some (''webview_devtools_remote_'' @ render (Some ''1234'')))"
    by blast
  then have 1: "findAbstractNameFunction ''/system/bin/sh: pidof: not found'' (splitRuns isSpace)
       (deviceBridge unixTable) (Some ''io.cordova.hello'')
     = Inr (Some ''webview_devtools_remote_1234'')"
    by simp
  have c: "at (splitRuns isSpace connectedLine) 5 = Some ''02''"
    by (simp add: connectedLine_fields at_def)
  have tbl': "socketsOutcome (deviceBridge (unixHeader @ [CHR 0x0A] @ otherLine @ [CHR 0x0A]
                 @ listeningLine @ [CHR 0x0A]))
               = Inr (unixHeader @ [CHR 0x0A] @ otherLine @ [CHR 0x0A] @ listeningLine
                        @ [CHR 0x0A])"
    by (simp add: deviceBridge_def)
  from socket_table_resolution
    [OF deviceBridge_pid tbl unixTable_lines_connected unixHeader_take,
     where line = connectedLine and before = "[]" and after = "[otherLine, listeningLine, []]"
       and adb' = "deviceBridge (unixHeader @ [CHR 0x0A] @ otherLine @ [CHR 0x0A]
                 @ listeningLine @ [CHR 0x0A])"
       and table' = "unixHeader @ [CHR 0x0A] @ otherLine @ [CHR 0x0A] @ listeningLine
                        @ [CHR 0x0A]"]
    c deviceBridge_pid tbl' connectedOnly_lines
  have 2: "findAbstractNameFunction ''/system/bin/sh: pidof: not found'' (splitRuns isSpace)
       (deviceBridge unixTable) (Some ''io.cordova.hello'')
     = findAbstractNameFunction ''/system/bin/sh: pidof: not found'' (splitRuns isSpace)
         (deviceBridge (unixHeader @ [CHR 0x0A] @ otherLine @ [CHR 0x0A] @ listeningLine
                          @ [CHR 0x0A]))
         (Some ''io.cordova.hello'')"
    by blast
  have "pidofOutcome (deviceBridge unixTable) = Inr (''1234'' @ [CHR 0x0A])
          \<and> ''1234'' @ [CHR 0x0A] \<noteq> [] \<and> trim (''1234'' @ [CHR 0x0A]) \<noteq> []
          \<and> list_all isDigit (trim (''1234'' @ [CHR 0x0A]))"
    by (simp add: deviceBridge_def trim_def isSpace_def isDigit_def)
  with inst have 3: "Some ''1234'' = Some (trim (''1234'' @ [CHR 0x0A]))" by blast
  from 1 2 3 show ?thesis by blast
qed

text \<open>
  The claim as it was written promises the web view's name for every row with the three
  fields.  On a device where the application also listens on the socket named after its
  package, listed before the socket of the web view, the loop returns at the first of the
  two rows: the resolver answers \<open>io.cordova.hello_devtools_remote\<close>, while the row of
  \<open>@webview_devtools_remote_1234\<close> is in the table with Flags \<open>00010000\<close> and St \<open>01\<close>.
\<close>

theorem package_socket_row_first_counterexample:
  "findAbstractNameFunction ''/system/bin/sh: pidof: not found'' (splitRuns isSpace)
       (deviceBridge packageSocketFirstTable) (Some ''io.cordova.hello'')
     = Inr (Some ''io.cordova.hello_devtools_remote'')
   \<and> splitOnChar CHR 0x0A packageSocketFirstTable
       = [unixHeader, crosswalkLine, listeningLine, []]
   \<and> at (splitRuns isSpace listeningLine) (indexOf (splitRuns isSpace unixHeader) ''Flags'')
       = Some ''00010000''
   \<and> at (splitRuns isSpace listeningLine) (indexOf (splitRuns isSpace unixHeader) ''St'')
       = Some ''01''
   \<and> at (splitRuns isSpace listeningLine) (indexOf (splitRuns isSpace unixHeader) ''Path'')
       = Some ''@webview_devtools_remote_1234''
   \<and> findPid ''/system/bin/sh: pidof: not found'' (splitRuns isSpace)
       (deviceBridge packageSocketFirstTable) (Some ''io.cordova.hello'') = Inr (Some ''1234'')"
proof -
  have lines: "splitOnChar CHR 0x0A packageSocketFirstTable
                 = [unixHeader, crosswalkLine, listeningLine, []]"
    by (simp add: packageSocketFirstTable_def unixHeader_def crosswalkLine_def listeningLine_def)
  have fields: "socketLine 3 5 7 (Some ''1234'') (Some ''io.cordova.hello'') crosswalkLine
                  = Inr (Some ''io.cordova.hello_devtools_remote'')"
    unfolding socketLine_kernel by (simp add: crosswalkLine_fields at_def)
  have "parseSockets (Some ''1234'') (Some ''io.cordova.hello'') packageSocketFirstTable
          = Inr (Some ''io.cordova.hello_devtools_remote'')"
    by (simp add: parseSockets_def lines unixHeader_keys fields)
  then have res: "findAbstractNameFunction ''/system/bin/sh: pidof: not found'' (splitRuns isSpace)
       (deviceBridge packageSocketFirstTable) (Some ''io.cordova.hello'')
     = Inr (Some ''io.cordova.hello_devtools_remote'')"
    by (simp add: findAbstractNameFunction_def deviceBridge_pid)
       (simp add: deviceBridge_def)
  have row: "at (splitRuns isSpace listeningLine) (indexOf (splitRuns isSpace unixHeader) ''Flags'')
       = Some ''00010000''
   \<and> at (splitRuns isSpace listeningLine) (indexOf (splitRuns isSpace unixHeader) ''St'')
       = Some ''01''
   \<and> at (splitRuns isSpace listeningLine) (indexOf (splitRuns isSpace unixHeader) ''Path'')
       = Some ''@webview_devtools_remote_1234''"
    by (simp add: unixHeader_keys listeningLine_fields at_def)
  from res lines row deviceBridge_pid [of packageSocketFirstTable] show ?thesis by blast
qed


section \<open>The retry loop\<close>

lemma retry_step_failed:
  assumes "\<not> (case func i of Inl e \<Rightarrow> False | Inr result \<Rightarrow> condition result)"
    and "\<not> cancelled i" and "i < m"
  shows "retryAsync func condition m i d failure cancelled
           = (Attempt i # Delay d # fst (retryAsync func condition m (i + 1) d failure cancelled),
              snd (retryAsync func condition m (i + 1) d failure cancelled))"
  using assms by (subst retryAsync.simps) (simp add: case_prod_beta)

lemma retry_last_failed:
  assumes "\<not> (case func i of Inl e \<Rightarrow> False | Inr result \<Rightarrow> condition result)"
    and "\<not> cancelled i" and "\<not> i < m"
  shows "retryAsync func condition m i d failure cancelled = ([Attempt i], Inl (Error failure))"
  using assms by (subst retryAsync.simps) simp

lemma retry_cancelled:
  assumes "\<not> (case func i of Inl e \<Rightarrow> False | Inr result \<Rightarrow> condition result)"
    and "cancelled i"
  shows "retryAsync func condition m i d failure cancelled
           = ([Attempt i], Inl (Error ''tokenCanceled''))"
  using assms by (subst retryAsync.simps) simp

lemma retry_all_failed:
  assumes fail: "\<And>i. \<not> (case func i of Inl e \<Rightarrow> False | Inr result \<Rightarrow> condition result)"
    and nc: "\<And>i. \<not> cancelled i"
  shows "retryAsync func condition 5 1 d failure cancelled
           = ([Attempt 1, Delay d, Attempt 2, Delay d, Attempt 3, Delay d, Attempt 4, Delay d,
               Attempt 5], Inl (Error failure))"
proof -
  note step = retry_step_failed [where func = func and condition = condition
      and cancelled = cancelled and m = 5 and d = d and failure = failure]
  have s5: "retryAsync func condition 5 5 d failure cancelled = ([Attempt 5], Inl (Error failure))"
    using retry_last_failed [where func = func and condition = condition
      and cancelled = cancelled and m = 5 and i = 5 and d = d and failure = failure] fail nc
    by simp
  have s4: "retryAsync func condition 5 4 d failure cancelled
              = ([Attempt 4, Delay d, Attempt 5], Inl (Error failure))"
    using step [where i = 4] fail nc s5 by simp
  have s3: "retryAsync func condition 5 3 d failure cancelled
              = ([Attempt 3, Delay d, Attempt 4, Delay d, Attempt 5], Inl (Error failure))"
    using step [where i = 3] fail nc s4 by simp
  have s2: "retryAsync func condition 5 2 d failure cancelled
              = ([Attempt 2, Delay d, Attempt 3, Delay d, Attempt 4, Delay d, Attempt 5],
                 Inl (Error failure))"
    using step [where i = 2] fail nc s3 by simp
  show ?thesis
    using step [where i = 1] fail nc s2 by (simp del: One_nat_def)
qed

lemma retry_cancelled_after:
  assumes fail: "\<And>i. \<not> (case func i of Inl e \<Rightarrow> False | Inr result \<Rightarrow> condition result)"
    and ck: "cancelled k" and before: "\<And>i. i < k \<Longrightarrow> \<not> cancelled i"
    and le: "j \<le> k" "k \<le> m"
  shows "snd (retryAsync func condition m j d failure cancelled) = Inl (Error ''tokenCanceled'')
       \<and> attempts (fst (retryAsync func condition m j d failure cancelled)) = k + 1 - j"
  using le
proof (induction "k - j" arbitrary: j)
  case 0
  then have "j = k" by simp
  then show ?case
    using retry_cancelled [where func = func and condition = condition and cancelled = cancelled
        and i = k and m = m and d = d and failure = failure] fail ck
    by (simp add: attempts_def)
next
  case (Suc n)
  then have lt: "j < k" by simp
  with Suc.prems have jm: "j < m" by simp
  have ih: "snd (retryAsync func condition m (j + 1) d failure cancelled) = Inl (Error ''tokenCanceled'')
       \<and> attempts (fst (retryAsync func condition m (j + 1) d failure cancelled)) = k + 1 - (j + 1)"
    using Suc.hyps(1) [of "j + 1"] Suc.hyps(2) lt Suc.prems by simp
  show ?case
    using retry_step_failed [where func = func and condition = condition and cancelled = cancelled
        and i = j and m = m and d = d and failure = failure] fail before [OF lt] jm ih lt
    by (simp add: attempts_def)
qed

text \<open>
  Claim C5.  When every attempt of \<open>findAbstractNameFunction\<close> ends without a match and
  the token is never cancelled, the retry loop of \<open>prepareForAttach\<close> makes exactly five
  attempts, numbered 1 to 5, with the delay of the call (5000) between consecutive attempts,
  and ends with the error "Unable to find 'localabstract' name of Cordova app".  When the
  token is cancelled after attempt \<open>k\<close>, the loop ends there, after \<open>k\<close> attempts, with the
  cancellation error.
\<close>

theorem retry_exhaustion:
  assumes nomatch: "\<forall>i. \<exists>m. findAbstractNameFunction marker psSplit (adbAt i) pkg = Inr m \<and> \<not> truthy m"
  shows "((\<forall>i. \<not> cancelled i) \<longrightarrow>
            findAbstractNameWithRetry marker psSplit adbAt pkg cancelled
              = ([Attempt 1, Delay 5000, Attempt 2, Delay 5000, Attempt 3, Delay 5000,
                  Attempt 4, Delay 5000, Attempt 5],
                 Inl (Error ''Unable to find 'localabstract' name of Cordova app'')))
       \<and> (1 \<le> k \<and> k \<le> 5 \<and> cancelled k \<and> (\<forall>i<k. \<not> cancelled i) \<longrightarrow>
            snd (findAbstractNameWithRetry marker psSplit adbAt pkg cancelled)
              = Inl (Error ''tokenCanceled'')
            \<and> attempts (fst (findAbstractNameWithRetry marker psSplit adbAt pkg cancelled)) = k)"
proof (intro conjI impI)
  let ?f = "\<lambda>i. findAbstractNameFunction marker psSplit (adbAt i) pkg"
  have fail: "\<not> (case ?f i of Inl e \<Rightarrow> False | Inr result \<Rightarrow> truthy result)" for i
    using nomatch [rule_format, of i] by auto
  {
    assume nc: "\<forall>i. \<not> cancelled i"
    show "findAbstractNameWithRetry marker psSplit adbAt pkg cancelled
              = ([Attempt 1, Delay 5000, Attempt 2, Delay 5000, Attempt 3, Delay 5000,
                  Attempt 4, Delay 5000, Attempt 5],
                 Inl (Error ''Unable to find 'localabstract' name of Cordova app''))"
      unfolding findAbstractNameWithRetry_def
      using retry_all_failed [where func = ?f and condition = truthy and cancelled = cancelled] fail nc
      by simp
  }
  {
    assume k: "1 \<le> k \<and> k \<le> 5 \<and> cancelled k \<and> (\<forall>i<k. \<not> cancelled i)"
    then show "snd (findAbstractNameWithRetry marker psSplit adbAt pkg cancelled)
              = Inl (Error ''tokenCanceled'')"
      and "attempts (fst (findAbstractNameWithRetry marker psSplit adbAt pkg cancelled)) = k"
      unfolding findAbstractNameWithRetry_def
      using retry_cancelled_after [where func = ?f and condition = truthy and cancelled = cancelled
          and k = k and j = 1 and m = 5] fail by auto
  }
qed

lemma noSockets_no_match:
  "findAbstractNameFunction ''/system/bin/sh: pidof: not found'' (splitRuns isSpace)
     (noSockets i) (Some ''io.cordova.hello'') = Inr None"
  by (simp add: findAbstractNameFunction_def findPid_def noSockets_def trim_def isDigit_def
      isSpace_def parseSockets_def unixHeader_def socketLine_def connectedLine_def at_def)

theorem retry_exhaustion_witness:
  "findAbstractNameWithRetry ''/system/bin/sh: pidof: not found'' (splitRuns isSpace) noSockets
       (Some ''io.cordova.hello'') (\<lambda>i. False)
     = ([Attempt 1, Delay 5000, Attempt 2, Delay 5000, Attempt 3, Delay 5000,
         Attempt 4, Delay 5000, Attempt 5],
        Inl (Error ''Unable to find 'localabstract' name of Cordova app''))
   \<and> snd (findAbstractNameWithRetry ''/system/bin/sh: pidof: not found'' (splitRuns isSpace)
            noSockets (Some ''io.cordova.hello'') (\<lambda>i. 3 \<le> i)) = Inl (Error ''tokenCanceled'')
   \<and> attempts (fst (findAbstractNameWithRetry ''/system/bin/sh: pidof: not found''
            (splitRuns isSpace) noSockets (Some ''io.cordova.hello'') (\<lambda>i. 3 \<le> i))) = 3"
proof -
  have h: "\<forall>i. \<exists>m. findAbstractNameFunction ''/system/bin/sh: pidof: not found''
             (splitRuns isSpace) (noSockets i) (Some ''io.cordova.hello'') = Inr m \<and> \<not> truthy m"
    using noSockets_no_match by simp
  from retry_exhaustion [OF h, of "\<lambda>i. False" 1]
  have a: "findAbstractNameWithRetry ''/system/bin/sh: pidof: not found'' (splitRuns isSpace) noSockets
       (Some ''io.cordova.hello'') (\<lambda>i. False)
     = ([Attempt 1, Delay 5000, Attempt 2, Delay 5000, Attempt 3, Delay 5000,
         Attempt 4, Delay 5000, Attempt 5],
        Inl (Error ''Unable to find 'localabstract' name of Cordova app''))"
    by simp
  from retry_exhaustion [OF h, of "\<lambda>i. 3 \<le> i" 3]
  have b: "snd (findAbstractNameWithRetry ''/system/bin/sh: pidof: not found'' (splitRuns isSpace)
            noSockets (Some ''io.cordova.hello'') (\<lambda>i. 3 \<le> i)) = Inl (Error ''tokenCanceled'')
   \<and> attempts (fst (findAbstractNameWithRetry ''/system/bin/sh: pidof: not found''
            (splitRuns isSpace) noSockets (Some ''io.cordova.hello'') (\<lambda>i. 3 \<le> i))) = 3"
    by simp
  from a b show ?thesis by blast
qed


section \<open>Errors of the helper steps\<close>

lemma packagePromise_rethrows:
  "errCode \<noteq> Some ''ENOENT'' \<Longrightarrow>
     packagePromise (Inl (errCode, err)) readManifest8 parsePackage = Inl err"
  by (simp add: packagePromise_def)

lemma packagePromise_fallback:
  "packagePromise (Inl (Some ''ENOENT'', err)) (Inr contents) parsePackage = parsePackage contents"
  by (simp add: packagePromise_def)

lemma findPid_drops_other_errors:
  "pidofOutcome adb = Inl err \<Longrightarrow> message err \<noteq> pidofNotFoundError \<Longrightarrow>
     findPid pidofNotFoundError psSplit adb pkg = Inr None"
  by (simp add: findPid_def)


text \<open>
  Claim C6 does not hold of the pid step.  The device bridge rejects the \<open>pidof\<close> command
  with an error that is not the pid-not-found marker; the \<open>catch\<close> handler returns without
  rethrowing, the socket table is searched with an undefined pid, and the attempt ends
  with no match and no error.
\<close>

theorem pidof_error_dropped:
  "findAbstractNameFunction ''/system/bin/sh: pidof: not found'' (splitRuns isSpace)
     \<lparr>pidofOutcome = Inl (Error ''error: device offline''), psOutcome = Inr [],
      socketsOutcome = Inr unixTable\<rparr> (Some ''io.cordova.hello'') = Inr None"
  by (simp add: findAbstractNameFunction_def findPid_def parseSockets_def unixTable_lines
      socketLine_def connectedLine_fields otherLine_fields listeningLine_fields unixHeader_keys
      at_def isSpace_def)


section \<open>The expressions of the detector\<close>

text \<open>A match of the server-ready expression stays a match when output is appended.\<close>

lemma startsWithCI_append: "startsWithCI u p \<Longrightarrow> startsWithCI (u @ t) p"
  by (induction u p rule: startsWithCI.induct) auto

lemma startsWithCI_length: "startsWithCI u p \<Longrightarrow> length p \<le> length u"
  by (induction u p rule: startsWithCI.induct) auto

lemma firstMatch_neq_None_iff: "firstMatch m s \<noteq> None \<longleftrightarrow> (\<exists>p u. s = p @ u \<and> m u \<noteq> None)"
proof (induction s)
  case Nil
  then show ?case by simp
next
  case (Cons c cs)
  have "firstMatch m (c # cs) \<noteq> None \<longleftrightarrow> m (c # cs) \<noteq> None \<or> firstMatch m cs \<noteq> None"
    by (auto split: option.splits)
  also have "\<dots> \<longleftrightarrow> m (c # cs) \<noteq> None \<or> (\<exists>p u. cs = p @ u \<and> m u \<noteq> None)"
    using Cons.IH by simp
  also have "\<dots> \<longleftrightarrow> (\<exists>p u. c # cs = p @ u \<and> m u \<noteq> None)"
    by (auto simp: Cons_eq_append_conv)
  finally show ?case .
qed

lemma lastMatch_neq_None_iff: "lastMatch m s \<noteq> None \<longleftrightarrow> (\<exists>p u. s = p @ u \<and> m u \<noteq> None)"
proof (induction s)
  case Nil
  then show ?case by simp
next
  case (Cons c cs)
  have "lastMatch m (c # cs) \<noteq> None \<longleftrightarrow> m (c # cs) \<noteq> None \<or> lastMatch m cs \<noteq> None"
    by (auto split: option.splits)
  also have "\<dots> \<longleftrightarrow> m (c # cs) \<noteq> None \<or> (\<exists>p u. cs = p @ u \<and> m u \<noteq> None)"
    using Cons.IH by simp
  also have "\<dots> \<longleftrightarrow> (\<exists>p u. c # cs = p @ u \<and> m u \<noteq> None)"
    by (auto simp: Cons_eq_append_conv)
  finally show ?case .
qed

lemma firstMatch_append:
  assumes "\<And>u. m u \<noteq> None \<Longrightarrow> m (u @ t) \<noteq> None" and "firstMatch m s \<noteq> None"
  shows "firstMatch m (s @ t) \<noteq> None"
proof -
  from assms(2) obtain p u where "s = p @ u" "m u \<noteq> None"
    unfolding firstMatch_neq_None_iff by blast
  then have "s @ t = p @ (u @ t)" "m (u @ t) \<noteq> None" using assms(1) by auto
  then show ?thesis unfolding firstMatch_neq_None_iff by blast
qed

lemma lastMatch_append:
  assumes "\<And>u. m u \<noteq> None \<Longrightarrow> m (u @ t) \<noteq> None" and "lastMatch m s \<noteq> None"
  shows "lastMatch m (s @ t) \<noteq> None"
proof -
  from assms(2) obtain p u where "s = p @ u" "m u \<noteq> None"
    unfolding lastMatch_neq_None_iff by blast
  then have "s @ t = p @ (u @ t)" "m (u @ t) \<noteq> None" using assms(1) by auto
  then show ?thesis unfolding lastMatch_neq_None_iff by blast
qed

lemma url_at_append: "url_at v \<noteq> None \<Longrightarrow> url_at (v @ r) \<noteq> None"
  by (auto simp: url_at_def startsWithCI_append split: if_splits)

lemma dotStar_append: "\<exists>r. dotStar (x @ t) = dotStar x @ r"
proof (cases "\<forall>c\<in>set x. \<not> isLineTerminator c")
  case True
  then have tw: "takeWhile (\<lambda>c. \<not> isLineTerminator c) x = x"
    by (simp add: takeWhile_eq_all_conv)
  have "dotStar (x @ t) = dotStar x @ dotStar t"
    unfolding dotStar_def takeWhile_append tw using True by simp
  then show ?thesis by blast
next
  case False
  then have "dotStar (x @ t) = dotStar x @ []"
    by (auto simp: dotStar_def takeWhile_append)
  then show ?thesis by blast
qed

lemma SERVER_URL_RE_at_append:
  "SERVER_URL_RE_at alts u \<noteq> None \<Longrightarrow> SERVER_URL_RE_at alts (u @ t) \<noteq> None"
proof (induction alts)
  case Nil
  then show ?case by simp
next
  case (Cons alt alts)
  show ?case
  proof (cases "startsWithCI u (alt @ '':'')
                 \<and> lastMatch url_at (dotStar (drop (length alt + 1) u)) \<noteq> None")
    case True
    then have sw: "startsWithCI u (alt @ '':'')"
      and lm: "lastMatch url_at (dotStar (drop (length alt + 1) u)) \<noteq> None" by auto
    from sw have len: "length alt + 1 \<le> length u"
      using startsWithCI_length [of u "alt @ '':''"] by simp
    then have "drop (length alt + 1) (u @ t) = drop (length alt + 1) u @ t" by simp
    moreover obtain r where "dotStar (drop (length alt + 1) u @ t)
                               = dotStar (drop (length alt + 1) u) @ r"
      using dotStar_append by blast
    ultimately have "lastMatch url_at (dotStar (drop (length alt + 1) (u @ t))) \<noteq> None"
      using lastMatch_append [where m = url_at and t = r, OF url_at_append lm] by simp
    with sw show ?thesis by (auto simp: startsWithCI_append)
  next
    case False
    with Cons.prems have "SERVER_URL_RE_at alts u \<noteq> None"
      by (auto split: if_splits option.splits)
    then have "SERVER_URL_RE_at alts (u @ t) \<noteq> None" by (rule Cons.IH)
    then show ?thesis by (auto split: option.splits)
  qed
qed

lemma SERVER_URL_RE_exec_append:
  "SERVER_URL_RE_exec s \<noteq> None \<Longrightarrow> SERVER_URL_RE_exec (s @ t) \<noteq> None"
    unfolding SERVER_URL_RE_exec_def
  by (rule firstMatch_append
        [where m = "SERVER_URL_RE_at [''dev server running'', ''Running dev server'', ''Local'']"])
     (rule SERVER_URL_RE_at_append)

lemma SERVER_URL_RE_exec_Nil: "SERVER_URL_RE_exec [] = None"
  by (simp add: SERVER_URL_RE_exec_def)


section \<open>Every run of the detector\<close>

text \<open>No listener throws in a run from the start, and \<open>reachable\<close> holds of every state.\<close>

lemma reachable_start: "reachable cfg (startDetector cfg port)"
  by (simp add: reachable_def startDetector_def)

lemma settle_fields [simp]:
  "serverReady (settle x d) = serverReady d"
  "appReady (settle x d) = appReady d"
  "serverOut (settle x d) = serverOut d"
  "serverErr (settle x d) = serverErr d"
  "rejectTimeout (settle x d) = rejectTimeout d"
  "timerPending (settle x d) = timerPending d"
  "timerCalls (settle x d) = timerCalls d"
  "devServerPort (settle x d) = devServerPort d"
  by (simp_all add: settle_def)

lemma settle_serverStarting:
  "serverStarting (settle x d) = (case serverStarting d of None \<Rightarrow> Some x | Some y \<Rightarrow> Some y)"
  by (simp add: settle_def split: option.splits)

lemma reachable_settle_rejected:
  "reachable cfg d \<Longrightarrow> reachable cfg (settle (RejectedError e) d)"
  "reachable cfg d \<Longrightarrow> reachable cfg (settle (RejectedMessage m) d)"
  by (auto simp: reachable_def settle_serverStarting split: option.splits)

lemma reachable_append:
  "reachable cfg d \<Longrightarrow> reachable cfg (d\<lparr>serverOut := serverOut d @ data\<rparr>)"
  by (auto simp: reachable_def SERVER_URL_RE_exec_append)

lemma reachable_serverErr:
  "reachable cfg d \<Longrightarrow> reachable cfg (d\<lparr>serverErr := x\<rparr>)"
  by (auto simp: reachable_def)

lemma reachable_serverReadyBlock:
  "reachable cfg d \<Longrightarrow> m = SERVER_URL_RE_exec (serverOut d)
     \<Longrightarrow> reachable cfg (serverReadyBlock cfg m d)"
  by (auto simp: reachable_def serverReadyBlock_def resolveIfPossible_def clearTimeout_def
        setTimeout_def)

lemma serverReadyBlock_fields [simp]:
  "serverOut (serverReadyBlock cfg m d) = serverOut d"
  "serverErr (serverReadyBlock cfg m d) = serverErr d"
  "appReady (serverReadyBlock cfg m d) = appReady d"
  "serverStarting (serverReadyBlock cfg m d) = serverStarting d"
  "serverReady (serverReadyBlock cfg m d) = (serverReady d \<or> m \<noteq> None)"
  by (auto simp: serverReadyBlock_def resolveIfPossible_def clearTimeout_def setTimeout_def)

lemma reachable_appReadyBlock:
  assumes "reachable cfg d" "m = SERVER_URL_RE_exec (serverOut d)"
  shows "\<exists>d'. appReadyBlock cfg out m d = Inr d' \<and> reachable cfg d'"
proof (cases "serverReady d \<and> \<not> appReady d
               \<and> (isServe cfg \<or> getRegexToResolveAppDefer (cliArgs cfg) out)")
  case True
  with assms obtain url where url: "m = Some url" by (auto simp: reachable_def)
  have "reachable cfg (resolveIfPossible cfg AppReady (Some (serverUrls url out))
                      (d\<lparr>devServerPort := Some (getPortFromURL cfg url)\<rparr>))"
    using assms(1) True
    by (auto simp: reachable_def resolveIfPossible_def clearTimeout_def settle_serverStarting
          split: option.splits)
  with True url show ?thesis by (simp add: appReadyBlock_def)
next
  case False
  with assms(1) show ?thesis by (auto simp: appReadyBlock_def)
qed

lemma reachable_multipleInterfacesBlock:
  "reachable cfg d \<Longrightarrow> reachable cfg (multipleInterfacesBlock cfg out d)"
  by (simp add: multipleInterfacesBlock_def reachable_settle_rejected)

lemma reachable_errorBlock:
  "reachable cfg d \<Longrightarrow> reachable cfg (errorBlock cfg channel d)"
  by (simp add: errorBlock_def reachable_settle_rejected split: option.splits)

lemma reachable_serverOutputHandler:
  assumes "reachable cfg d"
  shows "\<exists>d'. serverOutputHandler cfg data d = Inr d' \<and> reachable cfg d'"
proof -
  let ?d1 = "d\<lparr>serverOut := serverOut d @ data\<rparr>"
  let ?out = "serverOut d @ data"
  let ?m = "SERVER_URL_RE_exec ?out"
  have r1: "reachable cfg ?d1" using assms by (rule reachable_append)
  have r2: "reachable cfg (serverReadyBlock cfg ?m ?d1)"
    using r1 by (rule reachable_serverReadyBlock) simp
  obtain d3 where d3: "appReadyBlock cfg ?out ?m (serverReadyBlock cfg ?m ?d1) = Inr d3"
    and r3: "reachable cfg d3"
    using reachable_appReadyBlock [OF r2, of ?m ?out] by auto
  have "reachable cfg (errorBlock cfg ?out (multipleInterfacesBlock cfg ?out d3))"
    using r3 by (intro reachable_errorBlock reachable_multipleInterfacesBlock)
  with d3 show ?thesis by (simp add: serverOutputHandler_def Let_def)
qed

lemma reachable_step:
  assumes "reachable cfg d"
  shows "\<exists>d'. step cfg e d = Inr d' \<and> reachable cfg d'"
proof (cases e)
  case (StdoutData data)
  then show ?thesis using reachable_serverOutputHandler [OF assms] by simp
next
  case (StderrData data)
  show ?thesis
  proof (cases "isIonic4 cfg")
    case True
    obtain d1 where d1: "serverOutputHandler cfg data d = Inr d1" and r1: "reachable cfg d1"
      using reachable_serverOutputHandler [OF assms] by blast
    have "reachable cfg (serverErrorOutputHandler cfg data d1)"
      unfolding serverErrorOutputHandler_def Let_def
      by (intro reachable_errorBlock reachable_serverErr r1)
    with True d1 StderrData show ?thesis by (simp add: stderrListener_def)
  next
    case False
    have "reachable cfg (serverErrorOutputHandler cfg data d)"
      unfolding serverErrorOutputHandler_def Let_def
      by (intro reachable_errorBlock reachable_serverErr assms)
    with False StderrData show ?thesis by (simp add: stderrListener_def)
  qed
next
  case ProcessExit
  have "reachable cfg (exitListener cfg d)"
    unfolding exitListener_def Let_def by (intro reachable_settle_rejected assms)
  with ProcessExit show ?thesis by simp
next
  case (ProcessError errCode err)
  have "reachable cfg (errorListener errCode err d)"
    unfolding errorListener_def using assms by (simp add: reachable_settle_rejected)
  with ProcessError show ?thesis by simp
next
  case TimerFired
  have "reachable cfg (d\<lparr>timerPending := False\<rparr>)"
    using assms by (auto simp: reachable_def)
  then have "reachable cfg (timeoutCallback cfg d)"
    unfolding timeoutCallback_def using assms by (simp add: reachable_settle_rejected)
  with TimerFired show ?thesis by simp
qed

lemma reachable_run:
  assumes "reachable cfg d"
  shows "\<exists>d'. run cfg d es = Inr d' \<and> reachable cfg d'"
  using assms
proof (induction es arbitrary: d)
  case Nil
  then show ?case by simp
next
  case (Cons e es)
  from reachable_step [OF Cons.prems, of e]
  obtain d1 where "step cfg e d = Inr d1" "reachable cfg d1" by blast
  with Cons.IH [of d1] show ?case by simp
qed


section \<open>The two timers\<close>













section \<open>What an output chunk does\<close>

lemma run_append:
  "run cfg d (es @ es') = (case run cfg d es of Inl e \<Rightarrow> Inl e | Inr d' \<Rightarrow> run cfg d' es')"
  by (induction es arbitrary: d) (auto split: sum.splits)

lemma resolveIfPossible_AppReady_fields:
  assumes "serverReady d"
  shows "serverReady (resolveIfPossible cfg AppReady urls d)"
    and "appReady (resolveIfPossible cfg AppReady urls d)"
    and "serverOut (resolveIfPossible cfg AppReady urls d) = serverOut d"
    and "serverStarting (resolveIfPossible cfg AppReady urls d)
           = (case serverStarting d of None \<Rightarrow> Some (Resolved urls) | Some y \<Rightarrow> Some y)"
  using assms
  by (simp_all add: resolveIfPossible_def clearTimeout_def settle_serverStarting)

lemma appReadyBlock_completes:
  assumes "serverReady d" "\<not> appReady d"
    "isServe cfg \<or> getRegexToResolveAppDefer (cliArgs cfg) out"
  shows "\<exists>d'. appReadyBlock cfg out (Some url) d = Inr d'
           \<and> serverReady d' \<and> appReady d' \<and> serverOut d' = serverOut d
           \<and> serverStarting d'
               = (case serverStarting d of
                    None \<Rightarrow> Some (Resolved (Some (serverUrls url out)))
                  | Some y \<Rightarrow> Some y)"
proof -
  let ?d = "d\<lparr>devServerPort := Some (getPortFromURL cfg url)\<rparr>"
  have sr: "serverReady ?d" using assms(1) by simp
  from assms have "appReadyBlock cfg out (Some url) d
      = Inr (resolveIfPossible cfg AppReady (Some (serverUrls url out)) ?d)"
    by (simp add: appReadyBlock_def)
  then show ?thesis
    using resolveIfPossible_AppReady_fields [OF sr, of cfg "Some (serverUrls url out)"]
    by simp
qed

lemma appReadyBlock_idle:
  assumes "\<not> (serverReady d \<and> \<not> appReady d
              \<and> (isServe cfg \<or> getRegexToResolveAppDefer (cliArgs cfg) out))"
  shows "appReadyBlock cfg out lm d = Inr d"
  using assms by (auto simp: appReadyBlock_def)

lemma errorBlock_fields [simp]:
  "serverReady (errorBlock cfg channel d) = serverReady d"
  "appReady (errorBlock cfg channel d) = appReady d"
  "serverOut (errorBlock cfg channel d) = serverOut d"
  "serverErr (errorBlock cfg channel d) = serverErr d"
  by (simp_all add: errorBlock_def split: option.splits)

lemma multipleInterfacesBlock_fields [simp]:
  "serverReady (multipleInterfacesBlock cfg out d) = serverReady d"
  "appReady (multipleInterfacesBlock cfg out d) = appReady d"
  "serverOut (multipleInterfacesBlock cfg out d) = serverOut d"
  "serverErr (multipleInterfacesBlock cfg out d) = serverErr d"
  by (simp_all add: multipleInterfacesBlock_def)

lemma errorBlock_serverStarting:
  "serverStarting (errorBlock cfg channel d)
     = (case serverStarting d of
          None \<Rightarrow> map_option (\<lambda>msg. RejectedError (Error msg)) (getServerErrorMessage cfg channel)
        | Some y \<Rightarrow> Some y)"
  by (simp add: errorBlock_def settle_serverStarting split: option.splits)

lemma multipleInterfacesBlock_serverStarting:
  "serverStarting (multipleInterfacesBlock cfg out d)
     = (case serverStarting d of
          None \<Rightarrow> if includes_str out ''Multiple network interfaces detected''
                  then Some (RejectedError (Error (multipleNetworkMessage cfg out))) else None
        | Some y \<Rightarrow> Some y)"
  by (simp add: multipleInterfacesBlock_def settle_serverStarting split: option.splits)

text \<open>What a chunk on \<open>stdout\<close> does to the flags, and to a pending promise.\<close>

lemma serverOutputHandler_effect:
  assumes r: "reachable cfg d"
  shows "\<exists>d'. serverOutputHandler cfg data d = Inr d'
      \<and> serverOut d' = serverOut d @ data
      \<and> serverErr d' = serverErr d
      \<and> serverReady d' = (serverReady d \<or> SERVER_URL_RE_exec (serverOut d @ data) \<noteq> None)
      \<and> appReady d'
          = (appReady d
             \<or> (serverReady d \<or> SERVER_URL_RE_exec (serverOut d @ data) \<noteq> None)
                \<and> (isServe cfg \<or> getRegexToResolveAppDefer (cliArgs cfg) (serverOut d @ data)))
      \<and> serverStarting d'
          = (case serverStarting d of
               Some y \<Rightarrow> Some y
             | None \<Rightarrow>
                 if appReady d' \<and> \<not> appReady d
                 then Some (Resolved (Some (serverUrls (the (SERVER_URL_RE_exec (serverOut d @ data)))
                                             (serverOut d @ data))))
                 else if includes_str (serverOut d @ data) ''Multiple network interfaces detected''
                 then Some (RejectedError (Error (multipleNetworkMessage cfg (serverOut d @ data))))
                 else map_option (\<lambda>msg. RejectedError (Error msg))
                        (getServerErrorMessage cfg (serverOut d @ data)))"
proof -
  let ?out = "serverOut d @ data"
  let ?lm = "SERVER_URL_RE_exec ?out"
  let ?d1 = "d\<lparr>serverOut := ?out\<rparr>"
  let ?d2 = "serverReadyBlock cfg ?lm ?d1"
  have r2: "reachable cfg ?d2"
    by (rule reachable_serverReadyBlock [OF reachable_append [OF r]]) simp
  have sr2: "serverReady ?d2 = (serverReady d \<or> ?lm \<noteq> None)" by simp
  have ar2: "appReady ?d2 = appReady d" by simp
  have st2: "serverStarting ?d2 = serverStarting d" by simp
  have so2: "serverOut ?d2 = ?out" by simp
  have se2: "serverErr ?d2 = serverErr d" by simp
  show ?thesis
  proof (cases "serverReady ?d2 \<and> \<not> appReady ?d2
                 \<and> (isServe cfg \<or> getRegexToResolveAppDefer (cliArgs cfg) ?out)")
    case True
    with r2 so2 obtain url where url: "?lm = Some url" by (auto simp: reachable_def)
    from True obtain d3 where d3: "appReadyBlock cfg ?out (Some url) ?d2 = Inr d3"
      and f3: "serverReady d3" "appReady d3" "serverOut d3 = serverOut ?d2"
      and st3: "serverStarting d3
               = (case serverStarting ?d2 of
                    None \<Rightarrow> Some (Resolved (Some (serverUrls url ?out)))
                  | Some y \<Rightarrow> Some y)"
      using appReadyBlock_completes [of ?d2 cfg ?out url] by blast
    have se3: "serverErr d3 = serverErr d"
      using d3 True se2
      by (auto simp: appReadyBlock_def resolveIfPossible_def clearTimeout_def settle_def
            split: if_splits)
    let ?d' = "errorBlock cfg ?out (multipleInterfacesBlock cfg ?out d3)"
    have h: "serverOutputHandler cfg data d = Inr ?d'"
      using d3 url by (simp add: serverOutputHandler_def Let_def)
    have "serverStarting ?d'
            = (case serverStarting d of
                 Some y \<Rightarrow> Some y
               | None \<Rightarrow> Some (Resolved (Some (serverUrls url ?out))))"
      using st3 st2
      by (simp add: errorBlock_serverStarting multipleInterfacesBlock_serverStarting
            split: option.splits)
    with h f3 so2 se3 True sr2 ar2 url show ?thesis
      by (auto split: option.splits)
  next
    case False
    then have d3: "appReadyBlock cfg ?out ?lm ?d2 = Inr ?d2" by (rule appReadyBlock_idle)
    let ?d' = "errorBlock cfg ?out (multipleInterfacesBlock cfg ?out ?d2)"
    have h: "serverOutputHandler cfg data d = Inr ?d'"
      using d3 by (simp add: serverOutputHandler_def Let_def)
    have "serverStarting ?d'
            = (case serverStarting d of
                 Some y \<Rightarrow> Some y
               | None \<Rightarrow>
                   if includes_str ?out ''Multiple network interfaces detected''
                   then Some (RejectedError (Error (multipleNetworkMessage cfg ?out)))
                   else map_option (\<lambda>msg. RejectedError (Error msg))
                          (getServerErrorMessage cfg ?out))"
      using st2
      by (simp add: errorBlock_serverStarting multipleInterfacesBlock_serverStarting
            split: option.splits)
    moreover have "appReady ?d' = appReady d" by simp
    moreover have "serverReady ?d' = (serverReady d \<or> ?lm \<noteq> None)" by simp
    moreover have "appReady d
             \<or> \<not> ((serverReady d \<or> ?lm \<noteq> None)
                   \<and> (isServe cfg \<or> getRegexToResolveAppDefer (cliArgs cfg) ?out))"
      using False sr2 ar2 by blast
    moreover have "serverOut ?d' = ?out" "serverErr ?d' = serverErr d" by simp_all
    ultimately show ?thesis using h by (auto split: option.splits)
  qed
qed


section \<open>Readiness\<close>

lemma stdout_serverOut:
  assumes "reachable cfg d" "run cfg d (map StdoutData chunks) = Inr d'"
  shows "serverOut d' = serverOut d @ concat chunks \<and> reachable cfg d'"
  using assms
proof (induction chunks arbitrary: d)
  case Nil
  then show ?case by simp
next
  case (Cons c chunks)
  obtain d1 where d1: "serverOutputHandler cfg c d = Inr d1"
    and so: "serverOut d1 = serverOut d @ c" and r1: "reachable cfg d1"
    using serverOutputHandler_effect [OF Cons.prems(1), of c]
      reachable_serverOutputHandler [OF Cons.prems(1), of c] by auto
  from Cons.prems(2) d1 have "run cfg d1 (map StdoutData chunks) = Inr d'" by simp
  from Cons.IH [OF r1 this] so show ?case by simp
qed

lemma settled_step:
  assumes "reachable cfg d" "serverStarting d = Some x" "step cfg e d = Inr d'"
  shows "serverStarting d' = Some x"
proof (cases e)
  case (StdoutData data)
  with assms serverOutputHandler_effect [OF assms(1), of data] show ?thesis by auto
next
  case (StderrData data)
  show ?thesis
  proof (cases "isIonic4 cfg")
    case True
    obtain d1 where d1: "serverOutputHandler cfg data d = Inr d1"
      and s1: "serverStarting d1 = Some x"
      using serverOutputHandler_effect [OF assms(1), of data] assms(2) by auto
    with True StderrData assms(3) show ?thesis
      by (auto simp: stderrListener_def serverErrorOutputHandler_def Let_def
            errorBlock_serverStarting)
  next
    case False
    with StderrData assms show ?thesis
      by (auto simp: stderrListener_def serverErrorOutputHandler_def Let_def
            errorBlock_serverStarting)
  qed
next
  case ProcessExit
  with assms show ?thesis by (auto simp: exitListener_def Let_def settle_serverStarting)
next
  case (ProcessError errCode err)
  with assms show ?thesis by (auto simp: errorListener_def settle_serverStarting)
next
  case TimerFired
  with assms show ?thesis by (auto simp: timeoutCallback_def settle_def)
qed

lemma settled_run:
  assumes "reachable cfg d" "serverStarting d = Some x"
  shows "\<exists>d'. run cfg d es = Inr d' \<and> serverStarting d' = Some x"
  using assms
proof (induction es arbitrary: d)
  case Nil
  then show ?case by simp
next
  case (Cons e es)
  obtain d1 where d1: "step cfg e d = Inr d1" and r1: "reachable cfg d1"
    using reachable_step [OF Cons.prems(1), of e] by blast
  have "serverStarting d1 = Some x" using settled_step [OF Cons.prems d1] .
  from Cons.IH [OF r1 this] d1 show ?case by simp
qed

lemma both_patterns_ready:
  assumes m: "SERVER_URL_RE_exec (concat chunks) \<noteq> None"
    and a: "isServe cfg \<or> getRegexToResolveAppDefer (cliArgs cfg) (concat chunks)"
  shows "\<exists>d. run cfg (startDetector cfg port) (map StdoutData chunks) = Inr d
           \<and> serverReady d \<and> appReady d"
proof (cases chunks rule: rev_cases)
  case Nil
  with m show ?thesis by (simp add: SERVER_URL_RE_exec_Nil)
next
  case (snoc pre c)
  obtain d0 where d0: "run cfg (startDetector cfg port) (map StdoutData pre) = Inr d0"
    and r0: "reachable cfg d0"
    using reachable_run [OF reachable_start] by blast
  have so: "serverOut d0 = concat pre"
    using stdout_serverOut [OF reachable_start d0] by (simp add: startDetector_def)
  obtain d where d: "serverOutputHandler cfg c d0 = Inr d"
    and sr: "serverReady d = (serverReady d0 \<or> SERVER_URL_RE_exec (serverOut d0 @ c) \<noteq> None)"
    and ar: "appReady d
          = (appReady d0
             \<or> (serverReady d0 \<or> SERVER_URL_RE_exec (serverOut d0 @ c) \<noteq> None)
                \<and> (isServe cfg \<or> getRegexToResolveAppDefer (cliArgs cfg) (serverOut d0 @ c)))"
    using serverOutputHandler_effect [OF r0, of c] by blast
  have "run cfg (startDetector cfg port) (map StdoutData chunks) = Inr d"
    using snoc d0 d by (simp add: run_append)
  moreover have "serverReady d" "appReady d"
    using sr ar so m a snoc by simp_all
  ultimately show ?thesis by blast
qed

lemma completing_chunk_resolves:
  assumes r0: "reachable cfg d0" and p: "serverStarting d0 = None"
    and m: "SERVER_URL_RE_exec (serverOut d0 @ c) = Some url"
    and a: "isServe cfg \<or> getRegexToResolveAppDefer (cliArgs cfg) (serverOut d0 @ c)"
    and ev: "ev = StdoutData c \<or> (isIonic4 cfg \<and> ev = StderrData c)"
  shows "\<exists>d. step cfg ev d0 = Inr d \<and> serverReady d \<and> appReady d
           \<and> serverStarting d = Some (Resolved (Some (serverUrls url (serverOut d0 @ c))))"
proof -
  from r0 p have na: "\<not> appReady d0" by (auto simp: reachable_def)
  obtain d1 where d1: "serverOutputHandler cfg c d0 = Inr d1"
    and sr: "serverReady d1 = (serverReady d0 \<or> SERVER_URL_RE_exec (serverOut d0 @ c) \<noteq> None)"
    and ar: "appReady d1
          = (appReady d0
             \<or> (serverReady d0 \<or> SERVER_URL_RE_exec (serverOut d0 @ c) \<noteq> None)
                \<and> (isServe cfg \<or> getRegexToResolveAppDefer (cliArgs cfg) (serverOut d0 @ c)))"
    and st: "serverStarting d1
          = (case serverStarting d0 of
               Some y \<Rightarrow> Some y
             | None \<Rightarrow>
                 if appReady d1 \<and> \<not> appReady d0
                 then Some (Resolved (Some (serverUrls (the (SERVER_URL_RE_exec (serverOut d0 @ c)))
                                             (serverOut d0 @ c))))
                 else if includes_str (serverOut d0 @ c) ''Multiple network interfaces detected''
                 then Some (RejectedError (Error (multipleNetworkMessage cfg (serverOut d0 @ c))))
                 else map_option (\<lambda>msg. RejectedError (Error msg))
                        (getServerErrorMessage cfg (serverOut d0 @ c)))"
    using serverOutputHandler_effect [OF r0, of c] by blast
  have sr1: "serverReady d1" using sr m by simp
  have ar1: "appReady d1" using ar m a by simp
  have st1: "serverStarting d1 = Some (Resolved (Some (serverUrls url (serverOut d0 @ c))))"
    using st p m na ar1 by simp
  from ev show ?thesis
  proof
    assume "ev = StdoutData c"
    with d1 sr1 ar1 st1 show ?thesis by simp
  next
    assume e: "isIonic4 cfg \<and> ev = StderrData c"
    then have "step cfg ev d0 = Inr (serverErrorOutputHandler cfg c d1)"
      using d1 by (simp add: stderrListener_def)
    moreover have "serverReady (serverErrorOutputHandler cfg c d1)"
      "appReady (serverErrorOutputHandler cfg c d1)"
      using sr1 ar1 by (simp_all add: serverErrorOutputHandler_def Let_def)
    moreover have "serverStarting (serverErrorOutputHandler cfg c d1)
                     = Some (Resolved (Some (serverUrls url (serverOut d0 @ c))))"
      using st1 by (simp add: serverErrorOutputHandler_def Let_def errorBlock_serverStarting)
    ultimately show ?thesis by blast
  qed
qed

lemma returnedPromise_resolved:
  "returnedPromise (Some (Resolved (Some (serverUrls url out))))
     = Some (Resolved (Some (map (replace_empty ansiRegex) (serverUrls url out))))"
  by (cases "externalUrls_exec out")
     (simp_all add: returnedPromise_def serverStarting_then_def serverUrls_def)

text \<open>
  Claim C1, amended.  In every run no listener throws and \<open>appReady\<close> is never set without
  \<open>serverReady\<close>.  When the output accumulated from a sequence of chunks contains a match of
  the server-ready expression and, unless the command is \<open>serve\<close>, a match of the app-ready
  expression, both flags are set after the chunks.  The chunk that completes the two matches
  resolves \<open>serverStarting\<close> with the captured list (the matched address, then the external
  addresses) when that promise is still pending at the chunk, and the promise that
  \<open>startIonicDevServer\<close> returned is then resolved with the captured list, each address
  without its ANSI escape sequences.  A settled promise keeps its outcome whatever follows.
  The completing chunk does the same after any events that left the promise pending, and,
  with Ionic CLI 4 or later, on \<open>stderr\<close> as on \<open>stdout\<close>.
\<close>

theorem readiness_order_and_resolution:
  "(\<exists>d. run cfg (startDetector cfg port) es = Inr d \<and> (appReady d \<longrightarrow> serverReady d))
   \<and> (SERVER_URL_RE_exec (concat chunks) \<noteq> None
        \<and> (isServe cfg \<or> getRegexToResolveAppDefer (cliArgs cfg) (concat chunks))
      \<longrightarrow> (\<exists>d. run cfg (startDetector cfg port) (map StdoutData chunks) = Inr d
              \<and> serverReady d \<and> appReady d))
   \<and> (run cfg (startDetector cfg port) (map StdoutData chunks) = Inr d0
        \<and> serverStarting d0 = None
        \<and> SERVER_URL_RE_exec (concat chunks @ c) = Some url
        \<and> (isServe cfg \<or> getRegexToResolveAppDefer (cliArgs cfg) (concat chunks @ c))
      \<longrightarrow> (\<exists>d. run cfg (startDetector cfg port) (map StdoutData (chunks @ [c])) = Inr d
              \<and> serverReady d \<and> appReady d
              \<and> serverStarting d = Some (Resolved (Some (serverUrls url (concat chunks @ c)))))
          \<and> startIonicDevServer cfg port (map StdoutData (chunks @ [c]))
              = Inr (Some (Resolved (Some (map (replace_empty ansiRegex)
                                             (serverUrls url (concat chunks @ c)))))))
   \<and> (run cfg (startDetector cfg port) es = Inr d1 \<and> serverStarting d1 = Some outcome
      \<longrightarrow> (\<exists>d. run cfg (startDetector cfg port) (es @ es') = Inr d
              \<and> serverStarting d = Some outcome)
          \<and> startIonicDevServer cfg port (es @ es') = startIonicDevServer cfg port es)
   \<and> (run cfg (startDetector cfg port) es = Inr d2
        \<and> serverStarting d2 = None
        \<and> SERVER_URL_RE_exec (serverOut d2 @ c') = Some url'
        \<and> (isServe cfg \<or> getRegexToResolveAppDefer (cliArgs cfg) (serverOut d2 @ c'))
        \<and> (ev = StdoutData c' \<or> (isIonic4 cfg \<and> ev = StderrData c'))
      \<longrightarrow> (\<exists>d. run cfg (startDetector cfg port) (es @ [ev]) = Inr d
              \<and> serverReady d \<and> appReady d)
          \<and> startIonicDevServer cfg port (es @ [ev])
              = Inr (Some (Resolved (Some (map (replace_empty ansiRegex)
                                             (serverUrls url' (serverOut d2 @ c')))))))"
proof -
  have c1: "\<exists>d. run cfg (startDetector cfg port) es = Inr d \<and> (appReady d \<longrightarrow> serverReady d)"
    using reachable_run [OF reachable_start, of cfg port es] by (auto simp: reachable_def)
  have c2: "\<exists>d. run cfg (startDetector cfg port) (map StdoutData chunks) = Inr d
              \<and> serverReady d \<and> appReady d"
    if "SERVER_URL_RE_exec (concat chunks) \<noteq> None
        \<and> (isServe cfg \<or> getRegexToResolveAppDefer (cliArgs cfg) (concat chunks))"
    using that both_patterns_ready by blast
  have general: "\<exists>d. run cfg (startDetector cfg port) (evs @ [e]) = Inr d
              \<and> serverReady d \<and> appReady d
              \<and> serverStarting d = Some (Resolved (Some (serverUrls u (serverOut s @ k))))
              \<and> startIonicDevServer cfg port (evs @ [e])
                  = Inr (Some (Resolved (Some (map (replace_empty ansiRegex)
                                                 (serverUrls u (serverOut s @ k))))))"
    if h: "run cfg (startDetector cfg port) evs = Inr s"
      "serverStarting s = None"
      "SERVER_URL_RE_exec (serverOut s @ k) = Some u"
      "isServe cfg \<or> getRegexToResolveAppDefer (cliArgs cfg) (serverOut s @ k)"
      "e = StdoutData k \<or> (isIonic4 cfg \<and> e = StderrData k)"
    for evs s k u e
  proof -
    obtain s' where "run cfg (startDetector cfg port) evs = Inr s'" "reachable cfg s'"
      using reachable_run [OF reachable_start] by blast
    with h(1) have r: "reachable cfg s" by simp
    obtain d where d: "step cfg e s = Inr d" and sr: "serverReady d" and ar: "appReady d"
      and st: "serverStarting d = Some (Resolved (Some (serverUrls u (serverOut s @ k))))"
      using completing_chunk_resolves [OF r h(2) h(3) h(4) h(5)] by blast
    have rn: "run cfg (startDetector cfg port) (evs @ [e]) = Inr d"
      using h(1) d by (simp add: run_append)
    have "startIonicDevServer cfg port (evs @ [e])
            = Inr (Some (Resolved (Some (map (replace_empty ansiRegex)
                                           (serverUrls u (serverOut s @ k))))))"
      using rn st by (simp add: startIonicDevServer_def returnedPromise_resolved)
    with rn sr ar st show ?thesis by blast
  qed
  have c3: "(\<exists>d. run cfg (startDetector cfg port) (map StdoutData (chunks @ [c])) = Inr d
              \<and> serverReady d \<and> appReady d
              \<and> serverStarting d = Some (Resolved (Some (serverUrls url (concat chunks @ c)))))
          \<and> startIonicDevServer cfg port (map StdoutData (chunks @ [c]))
              = Inr (Some (Resolved (Some (map (replace_empty ansiRegex)
                                             (serverUrls url (concat chunks @ c))))))"
    if h: "run cfg (startDetector cfg port) (map StdoutData chunks) = Inr d0
        \<and> serverStarting d0 = None
        \<and> SERVER_URL_RE_exec (concat chunks @ c) = Some url
        \<and> (isServe cfg \<or> getRegexToResolveAppDefer (cliArgs cfg) (concat chunks @ c))"
  proof -
    from h have so: "serverOut d0 = concat chunks"
      using stdout_serverOut [OF reachable_start, of cfg port chunks d0]
      by (simp add: startDetector_def)
    from h so general [of "map StdoutData chunks" d0 c url "StdoutData c"]
    have "\<exists>d. run cfg (startDetector cfg port) (map StdoutData (chunks @ [c])) = Inr d
              \<and> serverReady d \<and> appReady d
              \<and> serverStarting d = Some (Resolved (Some (serverUrls url (concat chunks @ c))))
              \<and> startIonicDevServer cfg port (map StdoutData (chunks @ [c]))
                  = Inr (Some (Resolved (Some (map (replace_empty ansiRegex)
                                                 (serverUrls url (concat chunks @ c))))))"
      by simp
    then show ?thesis by blast
  qed
  have c4: "(\<exists>d. run cfg (startDetector cfg port) (es @ es') = Inr d
              \<and> serverStarting d = Some outcome)
          \<and> startIonicDevServer cfg port (es @ es') = startIonicDevServer cfg port es"
    if h: "run cfg (startDetector cfg port) es = Inr d1 \<and> serverStarting d1 = Some outcome"
  proof -
    obtain d1' where "run cfg (startDetector cfg port) es = Inr d1'" "reachable cfg d1'"
      using reachable_run [OF reachable_start] by blast
    with h have r1: "reachable cfg d1" by simp
    from settled_run [OF r1, of outcome es'] h
    obtain d where d: "run cfg (startDetector cfg port) (es @ es') = Inr d"
      and st: "serverStarting d = Some outcome"
      by (auto simp: run_append)
    have "startIonicDevServer cfg port (es @ es') = startIonicDevServer cfg port es"
      using h d st by (simp add: startIonicDevServer_def)
    with d st show ?thesis by blast
  qed
  have c5: "(\<exists>d. run cfg (startDetector cfg port) (es @ [ev]) = Inr d
              \<and> serverReady d \<and> appReady d)
          \<and> startIonicDevServer cfg port (es @ [ev])
              = Inr (Some (Resolved (Some (map (replace_empty ansiRegex)
                                             (serverUrls url' (serverOut d2 @ c'))))))"
    if h: "run cfg (startDetector cfg port) es = Inr d2
        \<and> serverStarting d2 = None
        \<and> SERVER_URL_RE_exec (serverOut d2 @ c') = Some url'
        \<and> (isServe cfg \<or> getRegexToResolveAppDefer (cliArgs cfg) (serverOut d2 @ c'))
        \<and> (ev = StdoutData c' \<or> (isIonic4 cfg \<and> ev = StderrData c'))"
  proof -
    from h have "\<exists>d. run cfg (startDetector cfg port) (es @ [ev]) = Inr d
              \<and> serverReady d \<and> appReady d
              \<and> serverStarting d = Some (Resolved (Some (serverUrls url' (serverOut d2 @ c'))))
              \<and> startIonicDevServer cfg port (es @ [ev])
                  = Inr (Some (Resolved (Some (map (replace_empty ansiRegex)
                                                 (serverUrls url' (serverOut d2 @ c'))))))"
      by (elim conjE) (rule general)
    then show ?thesis by blast
  qed
  from c1 c2 c3 c4 c5 show ?thesis by blast
qed

theorem readiness_order_and_resolution_witness:
  "(\<exists>d. run androidRun (startDetector androidRun None) (map StdoutData readyChunks) = Inr d
        \<and> serverReady d \<and> appReady d)
   \<and> (\<exists>d. run androidRun (startDetector androidRun None)
             (map StdoutData ([colouredLine] @ [''launch success'' @ [CHR 0x0A]])) = Inr d
        \<and> serverReady d \<and> appReady d
        \<and> serverStarting d
            = Some (Resolved (Some [''http://localhost:8100'' @ [CHR 0x1B] @ ''[22m''])))
   \<and> startIonicDevServer androidRun None
        (map StdoutData ([colouredLine] @ [''launch success'' @ [CHR 0x0A]]))
       = Inr (Some (Resolved (Some [''http://localhost:8100''])))
   \<and> startIonicDevServer androidRun None (map StdoutData readyChunks @ [TimerFired, ProcessExit])
       = Inr (Some (Resolved (Some [''http://localhost:8100''])))
   \<and> startIonicDevServer ionic4Run None ([] @ [StderrData readyChunk])
       = Inr (Some (Resolved (Some [''http://localhost:8100''])))"
proof -
  have p: "SERVER_URL_RE_exec (concat readyChunks) \<noteq> None
        \<and> (isServe androidRun
            \<or> getRegexToResolveAppDefer (cliArgs androidRun) (concat readyChunks))"
    by code_simp
  have q: "run androidRun (startDetector androidRun None) (map StdoutData [colouredLine])
           = Inr colouredServerReadyDetector
        \<and> serverStarting colouredServerReadyDetector = None
        \<and> SERVER_URL_RE_exec (concat [colouredLine] @ (''launch success'' @ [CHR 0x0A]))
            = Some (''http://localhost:8100'' @ [CHR 0x1B] @ ''[22m'')
        \<and> (isServe androidRun
            \<or> getRegexToResolveAppDefer (cliArgs androidRun)
                 (concat [colouredLine] @ (''launch success'' @ [CHR 0x0A])))"
    by code_simp
  have u: "serverUrls (''http://localhost:8100'' @ [CHR 0x1B] @ ''[22m'')
             (concat [colouredLine] @ (''launch success'' @ [CHR 0x0A]))
           = [''http://localhost:8100'' @ [CHR 0x1B] @ ''[22m'']"
    by code_simp
  have v: "map (replace_empty ansiRegex) [''http://localhost:8100'' @ [CHR 0x1B] @ ''[22m'']
             = [''http://localhost:8100'']"
    by code_simp
  have s: "run androidRun (startDetector androidRun None) (map StdoutData readyChunks)
             = Inr readyDetector
        \<and> serverStarting readyDetector = Some (Resolved (Some [''http://localhost:8100'']))"
    by code_simp
  have s': "startIonicDevServer androidRun None (map StdoutData readyChunks)
              = Inr (Some (Resolved (Some [''http://localhost:8100''])))"
    by code_simp
  have t: "run ionic4Run (startDetector ionic4Run None) [] = Inr (startDetector ionic4Run None)
        \<and> serverStarting (startDetector ionic4Run None) = None
        \<and> SERVER_URL_RE_exec (serverOut (startDetector ionic4Run None) @ readyChunk)
            = Some ''http://localhost:8100''
        \<and> (isServe ionic4Run
            \<or> getRegexToResolveAppDefer (cliArgs ionic4Run)
                 (serverOut (startDetector ionic4Run None) @ readyChunk))
        \<and> (StderrData readyChunk = StdoutData readyChunk
            \<or> (isIonic4 ionic4Run \<and> StderrData readyChunk = StderrData readyChunk))"
    by code_simp
  have w: "map (replace_empty ansiRegex)
             (serverUrls ''http://localhost:8100''
                (serverOut (startDetector ionic4Run None) @ readyChunk))
           = [''http://localhost:8100'']"
    by code_simp
  from readiness_order_and_resolution
    [where cfg = androidRun and port = None and chunks = readyChunks] p
  have 1: "\<exists>d. run androidRun (startDetector androidRun None) (map StdoutData readyChunks) = Inr d
        \<and> serverReady d \<and> appReady d"
    by blast
  from readiness_order_and_resolution
    [where cfg = androidRun and port = None
       and chunks = "[colouredLine]"
       and c = "''launch success'' @ [CHR 0x0A]" and ?d0.0 = colouredServerReadyDetector
       and url = "''http://localhost:8100'' @ [CHR 0x1B] @ ''[22m''"] q
  have 2: "(\<exists>d. run androidRun (startDetector androidRun None)
             (map StdoutData ([colouredLine] @ [''launch success'' @ [CHR 0x0A]])) = Inr d
        \<and> serverReady d \<and> appReady d
        \<and> serverStarting d
            = Some (Resolved (Some [''http://localhost:8100'' @ [CHR 0x1B] @ ''[22m''])))
     \<and> startIonicDevServer androidRun None
        (map StdoutData ([colouredLine] @ [''launch success'' @ [CHR 0x0A]]))
       = Inr (Some (Resolved (Some [''http://localhost:8100''])))"
    unfolding u v by blast
  from readiness_order_and_resolution
    [where cfg = androidRun and port = None and es = "map StdoutData readyChunks"
       and ?d1.0 = readyDetector
       and outcome = "Resolved (Some [''http://localhost:8100''])"
       and es' = "[TimerFired, ProcessExit]"] s
  have "startIonicDevServer androidRun None (map StdoutData readyChunks @ [TimerFired, ProcessExit])
          = startIonicDevServer androidRun None (map StdoutData readyChunks)"
    by blast
  with s' have 3: "startIonicDevServer androidRun None
                     (map StdoutData readyChunks @ [TimerFired, ProcessExit])
       = Inr (Some (Resolved (Some [''http://localhost:8100''])))"
    by simp
  from readiness_order_and_resolution
    [where cfg = ionic4Run and port = None and es = "[]"
       and ?d2.0 = "startDetector ionic4Run None" and c' = readyChunk
       and url' = "''http://localhost:8100''" and ev = "StderrData readyChunk"] t
  have 4: "startIonicDevServer ionic4Run None ([] @ [StderrData readyChunk])
       = Inr (Some (Resolved (Some [''http://localhost:8100''])))"
    unfolding w by blast
  from 1 2 3 4 show ?thesis by blast
qed


text \<open>
  Claim C1 as stated fails when the promise was rejected before: an error line, then the
  server-ready line, then the app-ready line set both flags, and the promise stays
  rejected; so does the promise the method returned.
\<close>

theorem rejected_before_ready_counterexample:
  "run androidRun (startDetector androidRun None) (map StdoutData errorFirstChunks)
     = Inr errorFirstDetector
   \<and> appReady errorFirstDetector
   \<and> serverStarting errorFirstDetector
       = Some (RejectedError (Error (''Error in the Ionic live reload server: '' @ [CHR 0x0A]
                                       @ ''error: x'')))
   \<and> startIonicDevServer androidRun None (map StdoutData errorFirstChunks)
       = Inr (Some (RejectedError (Error (''Error in the Ionic live reload server: ''
                                            @ [CHR 0x0A] @ ''error: x''))))"
  by code_simp


section \<open>The port-probe message of Ionic CLI 4\<close>

lemma includes_str_append: "includes_str data sub \<Longrightarrow> includes_str (acc @ data) sub"
proof -
  assume "includes_str data sub"
  then obtain p q where "data = p @ sub @ q" unfolding includes_iff by blast
  then have "acc @ data = (acc @ p) @ sub @ q" by simp
  then show ?thesis unfolding includes_iff by blast
qed

lemma getServerErrorMessage_ionic4:
  "isIonic4 cfg \<Longrightarrow> includes_str channel ''utils-network error while checking''
     \<Longrightarrow> getServerErrorMessage cfg channel = None"
  by (simp add: getServerErrorMessage_def)

lemma getServerErrorMessage_before4:
  "\<not> isIonic4 cfg \<Longrightarrow>
     getServerErrorMessage cfg channel
       = map_option (\<lambda>errorMatch. ''Error in the Ionic live reload server: '' @ EOL cfg @ errorMatch)
           (errorRegex_exec channel)"
  by (simp add: getServerErrorMessage_def split: option.splits)

lemma probe_text_no_error: "errorRegex_exec ''utils-network error while checking'' = None"
  by code_simp

lemma stderrListener_effect:
  assumes r: "reachable cfg d" and p: "serverStarting d = None"
  shows "\<exists>d'. stderrListener cfg data d = Inr d'
      \<and> (isIonic4 cfg \<longrightarrow>
            (\<exists>d1. serverOutputHandler cfg data d = Inr d1
               \<and> serverStarting d'
                   = (case serverStarting d1 of
                        Some y \<Rightarrow> Some y
                      | None \<Rightarrow> map_option (\<lambda>msg. RejectedError (Error msg))
                                  (getServerErrorMessage cfg (serverErr d @ data)))))
      \<and> (\<not> isIonic4 cfg \<longrightarrow>
            serverStarting d' = map_option (\<lambda>msg. RejectedError (Error msg))
                                  (getServerErrorMessage cfg (serverErr d @ data)))"
proof (cases "isIonic4 cfg")
  case True
  obtain d1 where d1: "serverOutputHandler cfg data d = Inr d1" and se: "serverErr d1 = serverErr d"
    using serverOutputHandler_effect [OF r, of data] by blast
  with True show ?thesis
    by (simp add: stderrListener_def serverErrorOutputHandler_def Let_def
          errorBlock_serverStarting)
next
  case False
  with p show ?thesis
    by (simp add: stderrListener_def serverErrorOutputHandler_def Let_def
          errorBlock_serverStarting)
qed

text \<open>
  Claim C2, amended.  Let a chunk contain \<open>utils-network error while checking\<close> and arrive
  while the promise is pending.  With Ionic CLI 4.0.0 or later \<open>getServerErrorMessage\<close>
  yields no error for the accumulated output of either stream, and the chunk, on either
  stream, does not reject the promise unless the output also has the message about several
  network interfaces.  With an earlier version the text itself is not fatal:
  \<open>getServerErrorMessage\<close> yields an error exactly when the accumulated output matches
  \<open>/error:.*/i\<close>, which the text alone does not; the chunk on \<open>stderr\<close>, and the chunk on
  \<open>stdout\<close> when it neither completes readiness nor brings the message about several
  interfaces, rejects the promise exactly then, with the matched text after the prefix of the
  message.
\<close>

theorem utils_network_message:
  assumes sub: "includes_str data ''utils-network error while checking''"
    and run: "run cfg (startDetector cfg port) es = Inr d"
    and pending: "serverStarting d = None"
  shows "(isIonic4 cfg \<longrightarrow>
            getServerErrorMessage cfg (serverOut d @ data) = None
          \<and> getServerErrorMessage cfg (serverErr d @ data) = None
          \<and> (\<not> includes_str (serverOut d @ data) ''Multiple network interfaces detected'' \<longrightarrow>
                (\<exists>d'. step cfg (StdoutData data) d = Inr d'
                    \<and> (serverStarting d' = None \<or> (\<exists>urls. serverStarting d' = Some (Resolved urls))))
              \<and> (\<exists>d'. step cfg (StderrData data) d = Inr d'
                    \<and> (serverStarting d' = None \<or> (\<exists>urls. serverStarting d' = Some (Resolved urls))))))
       \<and> (\<not> isIonic4 cfg \<longrightarrow>
            getServerErrorMessage cfg (serverOut d @ data)
              = map_option (\<lambda>errorMatch. ''Error in the Ionic live reload server: '' @ EOL cfg @ errorMatch)
                  (errorRegex_exec (serverOut d @ data))
          \<and> (\<exists>d'. step cfg (StderrData data) d = Inr d'
                \<and> serverStarting d'
                    = map_option (\<lambda>errorMatch. RejectedError (Error
                          (''Error in the Ionic live reload server: '' @ EOL cfg @ errorMatch)))
                        (errorRegex_exec (serverErr d @ data)))
          \<and> (\<not> includes_str (serverOut d @ data) ''Multiple network interfaces detected''
              \<and> \<not> ((serverReady d \<or> SERVER_URL_RE_exec (serverOut d @ data) \<noteq> None)
                    \<and> (isServe cfg \<or> getRegexToResolveAppDefer (cliArgs cfg) (serverOut d @ data)))
              \<longrightarrow> (\<exists>d'. step cfg (StdoutData data) d = Inr d'
                      \<and> serverStarting d'
                          = map_option (\<lambda>errorMatch. RejectedError (Error
                                (''Error in the Ionic live reload server: '' @ EOL cfg @ errorMatch)))
                              (errorRegex_exec (serverOut d @ data)))))
       \<and> errorRegex_exec ''utils-network error while checking'' = None"
proof -
  obtain d0 where "run cfg (startDetector cfg port) es = Inr d0" "reachable cfg d0"
    using reachable_run [OF reachable_start] by blast
  with run have r: "reachable cfg d" by simp
  from r pending have na: "\<not> appReady d" by (auto simp: reachable_def)
  let ?out = "serverOut d @ data"
  obtain d1 where d1: "serverOutputHandler cfg data d = Inr d1"
    and ar1: "appReady d1
          = (appReady d
             \<or> (serverReady d \<or> SERVER_URL_RE_exec ?out \<noteq> None)
                \<and> (isServe cfg \<or> getRegexToResolveAppDefer (cliArgs cfg) ?out))"
    and st1: "serverStarting d1
          = (case serverStarting d of
               Some y \<Rightarrow> Some y
             | None \<Rightarrow>
                 if appReady d1 \<and> \<not> appReady d
                 then Some (Resolved (Some (serverUrls (the (SERVER_URL_RE_exec ?out)) ?out)))
                 else if includes_str ?out ''Multiple network interfaces detected''
                 then Some (RejectedError (Error (multipleNetworkMessage cfg ?out)))
                 else map_option (\<lambda>msg. RejectedError (Error msg))
                        (getServerErrorMessage cfg ?out))"
    using serverOutputHandler_effect [OF r, of data] by blast
  obtain d2 where d2: "stderrListener cfg data d = Inr d2"
    and i4: "isIonic4 cfg \<longrightarrow>
            (\<exists>d1. serverOutputHandler cfg data d = Inr d1
               \<and> serverStarting d2
                   = (case serverStarting d1 of
                        Some y \<Rightarrow> Some y
                      | None \<Rightarrow> map_option (\<lambda>msg. RejectedError (Error msg))
                                  (getServerErrorMessage cfg (serverErr d @ data))))"
    and b4: "\<not> isIonic4 cfg \<longrightarrow>
            serverStarting d2 = map_option (\<lambda>msg. RejectedError (Error msg))
                                  (getServerErrorMessage cfg (serverErr d @ data))"
    using stderrListener_effect [OF r pending, of data] by blast
  have A: "isIonic4 cfg \<longrightarrow>
            getServerErrorMessage cfg ?out = None
          \<and> getServerErrorMessage cfg (serverErr d @ data) = None
          \<and> (\<not> includes_str ?out ''Multiple network interfaces detected'' \<longrightarrow>
                (\<exists>d'. step cfg (StdoutData data) d = Inr d'
                    \<and> (serverStarting d' = None \<or> (\<exists>urls. serverStarting d' = Some (Resolved urls))))
              \<and> (\<exists>d'. step cfg (StderrData data) d = Inr d'
                    \<and> (serverStarting d' = None \<or> (\<exists>urls. serverStarting d' = Some (Resolved urls)))))"
  proof
    assume ionic: "isIonic4 cfg"
    have g1: "getServerErrorMessage cfg ?out = None"
      using ionic sub by (simp add: getServerErrorMessage_ionic4 includes_str_append)
    have g2: "getServerErrorMessage cfg (serverErr d @ data) = None"
      using ionic sub by (simp add: getServerErrorMessage_ionic4 includes_str_append)
    have "\<not> includes_str ?out ''Multiple network interfaces detected'' \<longrightarrow>
            (serverStarting d1 = None \<or> (\<exists>urls. serverStarting d1 = Some (Resolved urls)))
          \<and> (serverStarting d2 = None \<or> (\<exists>urls. serverStarting d2 = Some (Resolved urls)))"
      using st1 pending g1 g2 i4 ionic d1 by (auto split: option.splits)
    with g1 g2 d1 d2 show "getServerErrorMessage cfg ?out = None
          \<and> getServerErrorMessage cfg (serverErr d @ data) = None
          \<and> (\<not> includes_str ?out ''Multiple network interfaces detected'' \<longrightarrow>
                (\<exists>d'. step cfg (StdoutData data) d = Inr d'
                    \<and> (serverStarting d' = None \<or> (\<exists>urls. serverStarting d' = Some (Resolved urls))))
              \<and> (\<exists>d'. step cfg (StderrData data) d = Inr d'
                    \<and> (serverStarting d' = None \<or> (\<exists>urls. serverStarting d' = Some (Resolved urls)))))"
      by simp
  qed
  have B: "\<not> isIonic4 cfg \<longrightarrow>
            getServerErrorMessage cfg ?out
              = map_option (\<lambda>errorMatch. ''Error in the Ionic live reload server: '' @ EOL cfg @ errorMatch)
                  (errorRegex_exec ?out)
          \<and> (\<exists>d'. step cfg (StderrData data) d = Inr d'
                \<and> serverStarting d'
                    = map_option (\<lambda>errorMatch. RejectedError (Error
                          (''Error in the Ionic live reload server: '' @ EOL cfg @ errorMatch)))
                        (errorRegex_exec (serverErr d @ data)))
          \<and> (\<not> includes_str ?out ''Multiple network interfaces detected''
              \<and> \<not> ((serverReady d \<or> SERVER_URL_RE_exec ?out \<noteq> None)
                    \<and> (isServe cfg \<or> getRegexToResolveAppDefer (cliArgs cfg) ?out))
              \<longrightarrow> (\<exists>d'. step cfg (StdoutData data) d = Inr d'
                      \<and> serverStarting d'
                          = map_option (\<lambda>errorMatch. RejectedError (Error
                                (''Error in the Ionic live reload server: '' @ EOL cfg @ errorMatch)))
                              (errorRegex_exec ?out)))"
  proof
    assume old: "\<not> isIonic4 cfg"
    have g: "getServerErrorMessage cfg ch
              = map_option (\<lambda>errorMatch. ''Error in the Ionic live reload server: '' @ EOL cfg @ errorMatch)
                  (errorRegex_exec ch)" for ch
      using old by (rule getServerErrorMessage_before4)
    have e: "serverStarting d2
               = map_option (\<lambda>errorMatch. RejectedError (Error
                          (''Error in the Ionic live reload server: '' @ EOL cfg @ errorMatch)))
                        (errorRegex_exec (serverErr d @ data))"
      using b4 old by (simp add: g option.map_comp comp_def)
    have o: "\<not> includes_str ?out ''Multiple network interfaces detected''
              \<and> \<not> ((serverReady d \<or> SERVER_URL_RE_exec ?out \<noteq> None)
                    \<and> (isServe cfg \<or> getRegexToResolveAppDefer (cliArgs cfg) ?out))
              \<longrightarrow> serverStarting d1
                          = map_option (\<lambda>errorMatch. RejectedError (Error
                                (''Error in the Ionic live reload server: '' @ EOL cfg @ errorMatch)))
                              (errorRegex_exec ?out)"
      using st1 ar1 na pending by (auto simp: g option.map_comp comp_def)
    from g e o d1 d2 show "getServerErrorMessage cfg ?out
              = map_option (\<lambda>errorMatch. ''Error in the Ionic live reload server: '' @ EOL cfg @ errorMatch)
                  (errorRegex_exec ?out)
          \<and> (\<exists>d'. step cfg (StderrData data) d = Inr d'
                \<and> serverStarting d'
                    = map_option (\<lambda>errorMatch. RejectedError (Error
                          (''Error in the Ionic live reload server: '' @ EOL cfg @ errorMatch)))
                        (errorRegex_exec (serverErr d @ data)))
          \<and> (\<not> includes_str ?out ''Multiple network interfaces detected''
              \<and> \<not> ((serverReady d \<or> SERVER_URL_RE_exec ?out \<noteq> None)
                    \<and> (isServe cfg \<or> getRegexToResolveAppDefer (cliArgs cfg) ?out))
              \<longrightarrow> (\<exists>d'. step cfg (StdoutData data) d = Inr d'
                      \<and> serverStarting d'
                          = map_option (\<lambda>errorMatch. RejectedError (Error
                                (''Error in the Ionic live reload server: '' @ EOL cfg @ errorMatch)))
                              (errorRegex_exec ?out)))"
      by simp
  qed
  from A B probe_text_no_error show ?thesis by blast
qed

theorem utils_network_message_witness:
  "getServerErrorMessage ionic4Run (serverOut (startDetector ionic4Run None) @ portProbeChunk) = None
   \<and> (\<exists>d'. step ionic4Run (StderrData portProbeChunk) (startDetector ionic4Run None) = Inr d'
         \<and> (serverStarting d' = None \<or> (\<exists>urls. serverStarting d' = Some (Resolved urls))))
   \<and> (\<exists>d'. step androidRun (StdoutData portProbeChunk) (startDetector androidRun None) = Inr d'
         \<and> serverStarting d'
             = Some (RejectedError (Error (''Error in the Ionic live reload server: ''
                  @ [CHR 0x0A] @ ''Error: listen EADDRINUSE''))))"
proof -
  have sub: "includes_str portProbeChunk ''utils-network error while checking''"
    by code_simp
  have run4: "run ionic4Run (startDetector ionic4Run None) [] = Inr (startDetector ionic4Run None)"
    and run3: "run androidRun (startDetector androidRun None) [] = Inr (startDetector androidRun None)"
    by simp_all
  have p4: "serverStarting (startDetector ionic4Run None) = None"
    and p3: "serverStarting (startDetector androidRun None) = None"
    by (simp_all add: startDetector_def)
  have c4: "isIonic4 ionic4Run
      \<and> \<not> includes_str (serverOut (startDetector ionic4Run None) @ portProbeChunk)
            ''Multiple network interfaces detected''"
    by code_simp
  have c3: "\<not> isIonic4 androidRun
      \<and> \<not> includes_str (serverOut (startDetector androidRun None) @ portProbeChunk)
            ''Multiple network interfaces detected''
      \<and> \<not> ((serverReady (startDetector androidRun None)
              \<or> SERVER_URL_RE_exec (serverOut (startDetector androidRun None) @ portProbeChunk)
                   \<noteq> None)
            \<and> (isServe androidRun
                \<or> getRegexToResolveAppDefer (cliArgs androidRun)
                     (serverOut (startDetector androidRun None) @ portProbeChunk)))"
    by code_simp
  have m3: "errorRegex_exec (serverOut (startDetector androidRun None) @ portProbeChunk)
              = Some ''Error: listen EADDRINUSE''"
    by code_simp
  have eol: "EOL androidRun = [CHR 0x0A]" by (simp add: androidRun_def)
  from utils_network_message [OF sub run4 p4] c4
  have 1: "getServerErrorMessage ionic4Run
             (serverOut (startDetector ionic4Run None) @ portProbeChunk) = None"
    and 2: "\<exists>d'. step ionic4Run (StderrData portProbeChunk) (startDetector ionic4Run None) = Inr d'
         \<and> (serverStarting d' = None \<or> (\<exists>urls. serverStarting d' = Some (Resolved urls)))"
    by blast+
  from utils_network_message [OF sub run3 p3] c3
  have "\<exists>d'. step androidRun (StdoutData portProbeChunk) (startDetector androidRun None) = Inr d'
         \<and> serverStarting d'
             = map_option (\<lambda>errorMatch. RejectedError (Error
                   (''Error in the Ionic live reload server: '' @ EOL androidRun @ errorMatch)))
                 (errorRegex_exec (serverOut (startDetector androidRun None) @ portProbeChunk))"
    by blast
  then have 3: "\<exists>d'. step androidRun (StdoutData portProbeChunk) (startDetector androidRun None) = Inr d'
         \<and> serverStarting d'
             = Some (RejectedError (Error (''Error in the Ionic live reload server: ''
                  @ [CHR 0x0A] @ ''Error: listen EADDRINUSE'')))"
    unfolding m3 eol by simp
  from 1 2 3 show ?thesis by blast
qed

text \<open>
  Claim C2 as stated fails for the earlier versions: a chunk that is just the text of the
  probe message has no \<open>error:\<close> in it, and the promise stays pending.
\<close>

theorem probe_text_not_fatal_before4_counterexample:
  "\<not> isIonic4 androidRun
   \<and> getServerErrorMessage androidRun ''utils-network error while checking'' = None
   \<and> run androidRun (startDetector androidRun None)
        [StdoutData ''utils-network error while checking''] = Inr pendingWithProbe
   \<and> serverStarting pendingWithProbe = None"
  by code_simp


section \<open>Several network interfaces\<close>






lemma startsWith_take: "startsWith s p \<Longrightarrow> s = p @ drop (length p) s"
  by (auto simp: startsWith_iff)









end
